theory Spec2Isabelle
  imports Complex_Main
begin

section \<open>Daylight: sun and moon position, times and phase\<close>

text \<open>
  A shallow embedding of \<^verbatim>\<open>src/index.ts\<close> and of the second implementation of the same
  module (\<^verbatim>\<open>src/unnamed/part_001\<close>, which adds the zodiac lookup to \<^verbatim>\<open>getMoonCoords\<close>).

  Conventions of the embedding.
  \<^item> A JavaScript number is a \<^typ>\<open>real\<close>: arithmetic is exact. The rounding of IEEE
    doubles is modelled for the two Julian conversions only (\<open>toJulianD\<close> and
    \<open>julianDateToDateD\<close>), where a property depends on it.
  \<^item> Where the source can produce a not-a-number in exact arithmetic (\<^verbatim>\<open>Math.acos\<close>
    outside \<open>[-1, 1]\<close>, a division by zero), the value is a \<^typ>\<open>real option\<close> and
    \<open>None\<close> is that non-finite value; arithmetic on it yields \<open>None\<close> again, as
    arithmetic on NaN yields NaN.
  \<^item> \<^verbatim>\<open>Math.asin\<close> and \<^verbatim>\<open>Math.acos\<close> are \<^const>\<open>arcsin\<close> and \<^const>\<open>arccos\<close> where the
    argument is shown to lie in \<open>[-1, 1]\<close> (lemmas \<open>*_arg_in_range\<close> below).
  \<^item> A valid \<^verbatim>\<open>Date\<close> argument is its time value, an integer number of milliseconds
    since the epoch. A \<^verbatim>\<open>Date\<close> that the code constructs is a value of the datatype
    \<open>Date\<close>, which has the invalid date (time value NaN) as a constructor; the
    constructor \<open>newDate\<close> applies the limit of 8.64e15 ms on time values.
  \<^item> The fallback \<^verbatim>\<open>date || new Date()\<close> is never taken: a \<^verbatim>\<open>Date\<close> object is truthy.
  \<^item> The trigonometric functions are those of HOL. At a pole of the tangent HOL's \<^const>\<open>tan\<close>
    is 0 and a quotient by it is 0, where the source computes a large finite number and a
    quotient near 0. Only the azimuth, the parallactic angle and the refraction at one
    altitude can meet such a value; no property below depends on it.
\<close>

subsection \<open>Constants\<close>

definition rad :: real where
  "rad = pi / 180"

text \<open>The source's constant \<^verbatim>\<open>e\<close>, the obliquity of the ecliptic.\<close>

definition e_obl :: real where
  "e_obl = rad * 23.4397"

definition dayMills :: real where
  "dayMills = 1000 * 60 * 60 * 24"

definition julian1970 :: real where
  "julian1970 = 2440588"

definition julian2000 :: real where
  "julian2000 = 2451545"

definition julian0 :: real where
  "julian0 = 0.0009"

definition sunsetAngle :: real where
  "sunsetAngle = - 0.83 * rad"

definition sunDiameter :: real where
  "sunDiameter = 0.53 * rad"

definition nauticalTwilightAngle :: real where
  "nauticalTwilightAngle = - 6 * rad"

definition astronomicalTwilightAngle :: real where
  "astronomicalTwilightAngle = - 12 * rad"

definition darknessAngle :: real where
  "darknessAngle = - 18 * rad"

subsection \<open>The host's functions\<close>

text \<open>
  \<^verbatim>\<open>Math.atan2(y, x)\<close> on finite arguments: the angle of the point \<open>(x, y)\<close> in
  \<open>(-\<pi>, \<pi>]\<close>, and 0 at the origin.
\<close>

definition atan2 :: "real \<Rightarrow> real \<Rightarrow> real" where
  "atan2 y x =
     (if 0 < x then arctan (y / x)
      else if x < 0 then (if 0 \<le> y then arctan (y / x) + pi else arctan (y / x) - pi)
      else if 0 < y then pi / 2
      else if y < 0 then - (pi / 2)
      else 0)"

text \<open>
  \<^verbatim>\<open>Math.acos\<close> as the code can meet it in exact arithmetic: \<open>acosDiv n d\<close> is
  \<^verbatim>\<open>acos(n / d)\<close>. For \<open>d = 0\<close> the quotient is an infinity or NaN, and for a quotient
  outside \<open>[-1, 1]\<close> the result is NaN as well.
\<close>

definition acosDiv :: "real \<Rightarrow> real \<Rightarrow> real option" where
  "acosDiv n d =
     (if d = 0 then None
      else if n / d < - 1 \<or> 1 < n / d then None
      else Some (arccos (n / d)))"

type_synonym timeValue = int

datatype Date = Date (valueOf: timeValue) | InvalidDate

text \<open>Truncation towards zero, as the \<^verbatim>\<open>Date\<close> constructor does on a finite number.\<close>

definition toInteger :: "real \<Rightarrow> int" where
  "toInteger x = (if 0 \<le> x then \<lfloor>x\<rfloor> else \<lceil>x\<rceil>)"

text \<open>
  \<^verbatim>\<open>new Date(v)\<close> on a number: the invalid date for NaN and for a number of more than
  8.64e15 in absolute value, and the date of the truncated number otherwise.
\<close>

definition newDate :: "real option \<Rightarrow> Date" where
  "newDate v =
     (case v of
        None \<Rightarrow> InvalidDate
      | Some x \<Rightarrow> if 8640000000000000 < \<bar>x\<bar> then InvalidDate else Date (toInteger x))"

subsection \<open>Time conversion\<close>

definition toJulian :: "timeValue \<Rightarrow> real" where
  "toJulian date = real_of_int date / dayMills - 0.5 + julian1970"

definition getDays :: "timeValue \<Rightarrow> real" where
  "getDays date = toJulian date - julian2000"

definition getJulianCycle :: "real \<Rightarrow> real \<Rightarrow> real" where
  "getJulianCycle julian lw = real_of_int (round (julian - julian2000 - julian0 - lw / (2 * pi)))"

definition julianDateToDate :: "real option \<Rightarrow> Date" where
  "julianDateToDate juian = newDate (map_option (\<lambda>j. (j + 0.5 - julian1970) * dayMills) juian)"

definition hoursShift :: "timeValue \<Rightarrow> real \<Rightarrow> Date" where
  "hoursShift date hours = newDate (Some (real_of_int date + hours * dayMills / 24))"

subsection \<open>Coordinates\<close>

definition getRightAscension :: "real \<Rightarrow> real \<Rightarrow> real" where
  "getRightAscension lon lat = atan2 (sin lon * cos e_obl - tan lat * sin e_obl) (cos lon)"

definition getDeclination :: "real \<Rightarrow> real \<Rightarrow> real" where
  "getDeclination lon lat = arcsin (sin lat * cos e_obl + cos lat * sin e_obl * sin lon)"

definition getAzimuth :: "real \<Rightarrow> real \<Rightarrow> real \<Rightarrow> real" where
  "getAzimuth h phi dec = atan2 (sin h) (cos h * sin phi - tan dec * cos phi)"

definition getAltitude :: "real \<Rightarrow> real \<Rightarrow> real \<Rightarrow> real" where
  "getAltitude h phi dec = arcsin (sin phi * sin dec + cos phi * cos dec * cos h)"

definition getSiderealTime :: "real \<Rightarrow> real \<Rightarrow> real" where
  "getSiderealTime d lw = rad * (280.16 + 360.9856235 * d) - lw"

definition getSolarMeanAnomaly :: "real \<Rightarrow> real" where
  "getSolarMeanAnomaly days = rad * (357.5291 + 0.98560028 * days)"

definition getApproxSolarTransit :: "real \<Rightarrow> real \<Rightarrow> real \<Rightarrow> real" where
  "getApproxSolarTransit ht lw julianCycle = julian2000 + julian0 + (ht + lw) / (2 * pi) + julianCycle"

definition getSolarTransit :: "real \<Rightarrow> real \<Rightarrow> real \<Rightarrow> real" where
  "getSolarTransit approxSolarTransit solarMeanAnomaly eclipticLongitude =
     approxSolarTransit + (0.0053 * sin solarMeanAnomaly) + (- 0.0069 * sin (2 * eclipticLongitude))"

definition getEquationOfCenter :: "real \<Rightarrow> real" where
  "getEquationOfCenter meanAnomaly =
     rad * (1.9148 * sin meanAnomaly + 0.02 * sin (2 * meanAnomaly) + 0.0003 * sin (3 * meanAnomaly))"

definition getSolarEclipticLongitude :: "real \<Rightarrow> real" where
  "getSolarEclipticLongitude meanAnomaly =
     (let centerEquation = getEquationOfCenter meanAnomaly;
          earthPerihelion = rad * 102.9372
      in meanAnomaly + centerEquation + earthPerihelion + pi)"

definition getAstroRefraction :: "real \<Rightarrow> real" where
  "getAstroRefraction altitude0 =
     (let altitude1 = (if altitude0 < 0 then 0 else altitude0)
      in 0.0002967 / tan (altitude1 + 0.00312536 / (altitude1 + 0.08901179)))"

record SunCoordinates =
  declination :: real
  rightAscension :: real

record MoonCoordinates = SunCoordinates +
  distance :: real

definition getSunCoords :: "real \<Rightarrow> SunCoordinates" where
  "getSunCoords days =
     (let meanAnomaly = getSolarMeanAnomaly days;
          eclipticLongitude = getSolarEclipticLongitude meanAnomaly
      in \<lparr> declination = getDeclination eclipticLongitude 0,
           rightAscension = getRightAscension eclipticLongitude 0 \<rparr>)"

text \<open>\<^verbatim>\<open>getMoonCoords\<close> of \<^verbatim>\<open>src/index.ts\<close>.\<close>

definition getMoonCoords :: "real \<Rightarrow> MoonCoordinates" where
  "getMoonCoords days =
     (let eclipticLong = rad * (218.316 + 13.176396 * days);
          meanAnomaly = rad * (134.963 + 13.064993 * days);
          meanDistance = rad * (93.272 + 13.229350 * days);
          long = eclipticLong + rad * 6.289 * sin meanAnomaly;
          lat = rad * 5.128 * sin meanDistance
      in \<lparr> declination = getDeclination long lat,
           rightAscension = getRightAscension long lat,
           distance = 385001 - 20905 * cos meanAnomaly \<rparr>)"

subsection \<open>Positions and phase\<close>

record SunPosition =
  azimuth :: real
  altitude :: real

record MoonPosition = SunPosition +
  distance_km :: real
  parallacticAngle :: real

definition getSunPosition :: "timeValue \<Rightarrow> real \<Rightarrow> real \<Rightarrow> SunPosition" where
  "getSunPosition date lat lon =
     (let lw = rad * - lon;
          phi = rad * lat;
          days = getDays date;
          sunnCoords = getSunCoords days;
          siderealTime = getSiderealTime days lw - rightAscension sunnCoords
      in \<lparr> azimuth = getAzimuth siderealTime phi (declination sunnCoords),
           altitude = getAltitude siderealTime phi (declination sunnCoords) \<rparr>)"

text \<open>
  \<^verbatim>\<open>getMoonPosition\<close> of \<^verbatim>\<open>src/index.ts\<close>. The field \<^verbatim>\<open>distance\<close> of the result is
  \<open>distance_km\<close> here, the name \<open>distance\<close> being the field of the coordinates.
\<close>

definition getMoonPosition :: "timeValue \<Rightarrow> real \<Rightarrow> real \<Rightarrow> MoonPosition" where
  "getMoonPosition date lat lon =
     (let lw = rad * - lon;
          phi = rad * lat;
          days = getDays date;
          moonCoords = getMoonCoords days;
          siderealTime = getSiderealTime days lw - rightAscension moonCoords;
          altitude0 = getAltitude siderealTime phi (declination moonCoords);
          parallactic = atan2 (sin siderealTime)
            (tan phi * cos (declination moonCoords) - sin (declination moonCoords) * cos siderealTime);
          altitude1 = altitude0 + getAstroRefraction altitude0
      in \<lparr> azimuth = getAzimuth siderealTime phi (declination moonCoords),
           altitude = altitude1,
           distance_km = distance moonCoords,
           parallacticAngle = parallactic \<rparr>)"

record MoonPhase =
  fraction :: real
  phase :: real
  angle :: real

definition getMoonPhase :: "timeValue \<Rightarrow> MoonPhase" where
  "getMoonPhase date =
     (let days = getDays date;
          sunCoords = getSunCoords days;
          moonCoords = getMoonCoords days;
          sunDistance = 149598000;
          phi = arccos (sin (declination sunCoords) * sin (declination moonCoords)
                  + cos (declination sunCoords) * cos (declination moonCoords)
                    * cos (rightAscension sunCoords - rightAscension moonCoords));
          inc = atan2 (sunDistance * sin phi) (distance moonCoords - sunDistance * cos phi);
          angle0 = atan2 (cos (declination sunCoords) * sin (rightAscension sunCoords - rightAscension moonCoords))
                    (sin (declination sunCoords) * cos (declination moonCoords)
                       - cos (declination sunCoords) * sin (declination moonCoords)
                         * cos (rightAscension sunCoords - rightAscension moonCoords))
      in \<lparr> fraction = (1 + cos inc) / 2,
           phase = 0.5 + 0.5 * inc * (if angle0 < 0 then - 1 else 1) / pi,
           angle = angle0 \<rparr>)"

subsection \<open>Sun times\<close>

text \<open>
  \<^verbatim>\<open>getHourAngle\<close> is the one place where the source takes \<^verbatim>\<open>acos\<close> of a quotient that
  can leave \<open>[-1, 1]\<close>; its result is NaN (\<open>None\<close>) there.
\<close>

definition getHourAngle :: "real \<Rightarrow> real \<Rightarrow> real \<Rightarrow> real option" where
  "getHourAngle hour phi declination0 =
     acosDiv (sin hour - sin phi * sin declination0) (cos phi * cos declination0)"

text \<open>
  The Julian date of a setting passed to \<^verbatim>\<open>getSunriseJulianDate\<close> and the hour angle passed
  to \<^verbatim>\<open>getSunsetJulianDate\<close> can be NaN, and so can their results.
\<close>

definition getSunriseJulianDate :: "real \<Rightarrow> real option \<Rightarrow> real option" where
  "getSunriseJulianDate julianTransit0 julianSet0 =
     map_option (\<lambda>s. julianTransit0 - (s - julianTransit0)) julianSet0"

definition getSunsetJulianDate :: "real option \<Rightarrow> real \<Rightarrow> real \<Rightarrow> real \<Rightarrow> real \<Rightarrow> real option" where
  "getSunsetJulianDate w0 meanAnomaly eclipticLongitude lw julianCycle =
     map_option (\<lambda>w. getSolarTransit (getApproxSolarTransit w lw julianCycle) meanAnomaly eclipticLongitude) w0"

record TimeSpan =
  start :: Date
  end' :: Date

record SunTimes =
  sunrise :: TimeSpan
  civilDawn :: TimeSpan
  nauticalDawn :: TimeSpan
  astronomicalDawn :: TimeSpan
  dawn :: Date
  sunset :: TimeSpan
  civilDusk :: TimeSpan
  nauticalDusk :: TimeSpan
  astronomicalDusk :: TimeSpan
  dusk :: Date
  transit :: Date

text \<open>
  The local constants of \<^verbatim>\<open>getSunTimes\<close> that its result is built from, under their
  names in the source: the declination, the five hour angles and the Julian dates.
  \<open>sunTimesLocals\<close> is the body of \<^verbatim>\<open>getSunTimes\<close> up to its \<^verbatim>\<open>return\<close>.
\<close>

record SunTimesLocals =
  sunDeclination :: real
  julianTransit :: real
  w0 :: "real option"
  w1 :: "real option"
  w2 :: "real option"
  w3 :: "real option"
  w4 :: "real option"
  julianSet :: "real option"
  julianSetStart :: "real option"
  julianRise :: "real option"
  julianRiseEnd :: "real option"
  julianNautical :: "real option"
  julianCivil :: "real option"
  julianAstro :: "real option"
  julianDark :: "real option"
  julianNautical2 :: "real option"
  julianAsto2 :: "real option"

definition sunTimesLocals :: "timeValue \<Rightarrow> real \<Rightarrow> real \<Rightarrow> SunTimesLocals" where
  "sunTimesLocals date lat lon =
     (let lw = - lon * rad;
          phi = lat * rad;
          julianDate = toJulian date;
          julianCycle = getJulianCycle julianDate lw;
          approxSolarTransit = getApproxSolarTransit 0 lw julianCycle;
          solarMeanAnomaly = getSolarMeanAnomaly (approxSolarTransit - julian2000);
          eclipticLongitude = getSolarEclipticLongitude solarMeanAnomaly;
          sunDeclination0 = arcsin (sin eclipticLongitude * sin e_obl);
          julianTransit0 = getSolarTransit approxSolarTransit solarMeanAnomaly eclipticLongitude;
          w00 = getHourAngle sunsetAngle phi sunDeclination0;
          w10 = getHourAngle (sunsetAngle + sunDiameter) phi sunDeclination0;
          julianSet0 = getSunsetJulianDate w00 solarMeanAnomaly eclipticLongitude lw julianCycle;
          julianSetStart0 = getSunsetJulianDate w10 solarMeanAnomaly eclipticLongitude lw julianCycle;
          julianRise0 = getSunriseJulianDate julianTransit0 julianSet0;
          julianRiseEnd0 = getSunriseJulianDate julianTransit0 julianSetStart0;
          w20 = getHourAngle nauticalTwilightAngle phi sunDeclination0;
          w30 = getHourAngle astronomicalTwilightAngle phi sunDeclination0;
          w40 = getHourAngle darknessAngle phi sunDeclination0;
          julianNautical0 = getSunsetJulianDate w20 solarMeanAnomaly eclipticLongitude lw julianCycle;
          julianCivil0 = getSunriseJulianDate julianTransit0 julianNautical0;
          julianAstro0 = getSunsetJulianDate w30 solarMeanAnomaly eclipticLongitude lw julianCycle;
          julianDark0 = getSunsetJulianDate w40 solarMeanAnomaly eclipticLongitude lw julianCycle;
          julianNautical20 = getSunriseJulianDate julianTransit0 julianAstro0;
          julianAsto20 = getSunriseJulianDate julianTransit0 julianDark0
      in \<lparr> sunDeclination = sunDeclination0,
           julianTransit = julianTransit0,
           w0 = w00, w1 = w10, w2 = w20, w3 = w30, w4 = w40,
           julianSet = julianSet0,
           julianSetStart = julianSetStart0,
           julianRise = julianRise0,
           julianRiseEnd = julianRiseEnd0,
           julianNautical = julianNautical0,
           julianCivil = julianCivil0,
           julianAstro = julianAstro0,
           julianDark = julianDark0,
           julianNautical2 = julianNautical20,
           julianAsto2 = julianAsto20 \<rparr>)"

definition getSunTimes :: "timeValue \<Rightarrow> real \<Rightarrow> real \<Rightarrow> SunTimes" where
  "getSunTimes date lat lon =
     (let j = sunTimesLocals date lat lon
      in \<lparr> sunrise = \<lparr> start = julianDateToDate (julianRise j), end' = julianDateToDate (julianRiseEnd j) \<rparr>,
           civilDawn = \<lparr> start = julianDateToDate (julianCivil j), end' = julianDateToDate (julianRise j) \<rparr>,
           nauticalDawn = \<lparr> start = julianDateToDate (julianNautical2 j), end' = julianDateToDate (julianCivil j) \<rparr>,
           astronomicalDawn = \<lparr> start = julianDateToDate (julianAsto2 j), end' = julianDateToDate (julianNautical2 j) \<rparr>,
           dawn = julianDateToDate (julianCivil j),
           sunset = \<lparr> start = julianDateToDate (julianSetStart j), end' = julianDateToDate (julianSet j) \<rparr>,
           civilDusk = \<lparr> start = julianDateToDate (julianSet j), end' = julianDateToDate (julianNautical j) \<rparr>,
           nauticalDusk = \<lparr> start = julianDateToDate (julianNautical j), end' = julianDateToDate (julianAstro j) \<rparr>,
           astronomicalDusk = \<lparr> start = julianDateToDate (julianAstro j), end' = julianDateToDate (julianDark j) \<rparr>,
           dusk = julianDateToDate (julianNautical j),
           transit = julianDateToDate (Some (julianTransit j)) \<rparr>)"

subsection \<open>Moon times\<close>

text \<open>
  \<^verbatim>\<open>date.setHours(0, 0, 0, 0)\<close> sets the time value of the \<^verbatim>\<open>Date\<close> object it is called
  on to the start of that date's local day. The host's time zone is the parameter \<open>tz\<close>:
  \<open>tz t True\<close> is the offset of local time at the UTC time \<open>t\<close>, and \<open>tz t False\<close>
  the offset at the local time \<open>t\<close>, in milliseconds. The limit on time values is not
  applied to the result: the start of the local day can leave the range only for a date
  within two days of either end of it.
\<close>

definition msPerDay :: int where
  "msPerDay = 86400000"

definition setHours0 :: "(timeValue \<Rightarrow> bool \<Rightarrow> int) \<Rightarrow> timeValue \<Rightarrow> timeValue" where
  "setHours0 tz t =
     (let local = t + tz t True;
          dayStart = (local div msPerDay) * msPerDay
      in dayStart - tz dayStart False)"

text \<open>The host whose local time is UTC.\<close>

definition utc :: "timeValue \<Rightarrow> bool \<Rightarrow> int" where
  "utc t isUTC = 0"

record MoonTimes =
  moonrise :: "Date option"
  moonset :: "Date option"
  alwaysUp :: "bool option"
  alwaysDown :: "bool option"

text \<open>
  The variables of the loop of \<^verbatim>\<open>getMoonTimes\<close> that live across its iterations.
  \<open>rise\<close> and \<open>setv\<close> (the source's \<^verbatim>\<open>set\<close>) are \<open>None\<close> while \<^verbatim>\<open>undefined\<close>;
  \<open>ye\<close> is \<open>None\<close> when it is NaN, \<open>x1\<close> and \<open>x2\<close> when they are not finite.
\<close>

record MoonScan =
  h0 :: real
  rise :: "real option"
  setv :: "real option"
  ye :: "real option"
  x1 :: "real option"
  x2 :: "real option"

text \<open>The truth value of \<^verbatim>\<open>rise\<close> and \<^verbatim>\<open>set\<close> in a condition: defined and not zero.\<close>

definition truthy :: "real option \<Rightarrow> bool" where
  "truthy v = (case v of None \<Rightarrow> False | Some r \<Rightarrow> r \<noteq> 0)"

text \<open>
  One iteration of the loop, from the computation of \<^verbatim>\<open>a\<close> to the assignments of \<^verbatim>\<open>rise\<close>
  and \<^verbatim>\<open>set\<close>, given the samples \<open>h1\<close> and \<open>h2\<close>. When \<open>a = 0\<close> the source divides by
  zero: \<^verbatim>\<open>xe\<close> is an infinity or NaN, \<^verbatim>\<open>ye\<close> is NaN, \<^verbatim>\<open>d = b * b\<close> is not negative,
  \<^verbatim>\<open>dx\<close>, \<^verbatim>\<open>x1\<close> and \<^verbatim>\<open>x2\<close> are not finite, so no root is counted.
\<close>

definition moonWindow :: "real \<Rightarrow> real \<Rightarrow> real \<Rightarrow> MoonScan \<Rightarrow> MoonScan" where
  "moonWindow i h1 h2 st =
     (let a = (h0 st + h2) / 2 - h1;
          b = (h2 - h0 st) / 2
      in if a = 0 then st\<lparr> ye := None, x1 := None, x2 := None \<rparr>
         else
           (let xe = - b / (2 * a);
                ye0 = (a * xe + b) * xe + h1;
                d = b * b - 4 * a * h1
            in if 0 \<le> d then
                 (let dx = sqrt d / (\<bar>a\<bar> * 2);
                      x10 = xe - dx;
                      x20 = xe + dx;
                      roots = (if \<bar>x10\<bar> \<le> 1 then 1 else 0) + (if \<bar>x20\<bar> \<le> 1 then 1 else (0::nat));
                      x11 = (if x10 < - 1 then x20 else x10);
                      st1 = st\<lparr> ye := Some ye0, x1 := Some x11, x2 := Some x20 \<rparr>
                  in if roots = 1 then
                       (if h0 st < 0 then st1\<lparr> rise := Some (i + x11) \<rparr>
                        else st1\<lparr> setv := Some (i + x11) \<rparr>)
                     else if roots = 2 then
                       st1\<lparr> rise := Some (i + (if ye0 < 0 then x20 else x11)),
                            setv := Some (i + (if ye0 < 0 then x11 else x20)) \<rparr>
                     else st1)
               else st\<lparr> ye := Some ye0 \<rparr>))"

definition hc :: real where
  "hc = 0.133 * rad"

text \<open>
  The altitude sampled \<open>hours\<close> after \<open>date\<close>. The shifted date is valid unless \<open>date\<close>
  is less than 25 hours before the end of the range of time values; there the sample of the
  source is NaN and \<open>valueOf\<close> leaves the sample of the model unspecified.
\<close>

definition moonAltitudeAt :: "timeValue \<Rightarrow> real \<Rightarrow> real \<Rightarrow> real \<Rightarrow> real" where
  "moonAltitudeAt date lat lon hours =
     altitude (getMoonPosition (valueOf (hoursShift date hours)) lat lon) - hc"

function moonLoop :: "timeValue \<Rightarrow> real \<Rightarrow> real \<Rightarrow> nat \<Rightarrow> MoonScan \<Rightarrow> MoonScan" where
  "moonLoop date lat lon i st =
     (if i \<le> 24 then
        (let h1 = moonAltitudeAt date lat lon (real i);
             h2 = moonAltitudeAt date lat lon (real (i + 1));
             st1 = moonWindow (real i) h1 h2 st
         in if truthy (rise st1) \<and> truthy (setv st1) then st1
            else moonLoop date lat lon (i + 2) (st1\<lparr> h0 := h2 \<rparr>))
      else st)"
  by pat_completeness auto
termination
  by (relation "measure (\<lambda>(date, lat, lon, i, st). 25 - i)") auto

definition moonResult :: "timeValue \<Rightarrow> MoonScan \<Rightarrow> MoonTimes" where
  "moonResult date st =
     \<lparr> moonrise = (if truthy (rise st) then map_option (hoursShift date) (rise st) else None),
       moonset = (if truthy (setv st) then map_option (hoursShift date) (setv st) else None),
       alwaysUp = (if \<not> truthy (rise st) \<and> \<not> truthy (setv st)
                   then (if (case ye st of None \<Rightarrow> False | Some y \<Rightarrow> 0 < y) then Some True else None)
                   else None),
       alwaysDown = (if \<not> truthy (rise st) \<and> \<not> truthy (setv st)
                     then (if (case ye st of None \<Rightarrow> False | Some y \<Rightarrow> 0 < y) then None else Some True)
                     else None) \<rparr>"

text \<open>
  \<^verbatim>\<open>getMoonTimes\<close>. The first component of the result is the time value of the caller's
  \<^verbatim>\<open>Date\<close> object when the call returns, the second is the value returned.
\<close>

definition getMoonTimes ::
  "(timeValue \<Rightarrow> bool \<Rightarrow> int) \<Rightarrow> timeValue \<Rightarrow> real \<Rightarrow> real \<Rightarrow> timeValue \<times> MoonTimes" where
  "getMoonTimes tz date0 lat lon =
     (let date = setHours0 tz date0;
          st0 = \<lparr> h0 = altitude (getMoonPosition date lat lon) - hc,
                  rise = None, setv = None, ye = Some 0, x1 = Some 0, x2 = Some 0 \<rparr>;
          st = moonLoop date lat lon 1 st0
      in (date, moonResult date st))"

subsection \<open>The second implementation: moon coordinates with the zodiac sign\<close>

text \<open>
  \<^verbatim>\<open>src/unnamed/part_001\<close> defines the same functions as \<^verbatim>\<open>src/index.ts\<close>; its
  \<^verbatim>\<open>getMoonCoords\<close> takes the date as well and adds the ecliptic latitude and longitude
  and the zodiac sign, and its \<^verbatim>\<open>getMoonPosition\<close> passes them on. The definitions of
  this part carry the suffix \<open>Z\<close>. The lookup of the sign reads \<^verbatim>\<open>.sign\<close> of the first
  element of a filtered array, which throws a \<^verbatim>\<open>TypeError\<close> when the array is empty.
\<close>

datatype error = TypeError

record zodiac =
  sign :: string
  long :: real

definition zodiacs :: "zodiac list" where
  "zodiacs =
     [\<lparr> sign = ''Aries'', long = 0 \<rparr>,
      \<lparr> sign = ''Taurus'', long = 30 \<rparr>,
      \<lparr> sign = ''Gemini'', long = 60 \<rparr>,
      \<lparr> sign = ''Cancer'', long = 90 \<rparr>,
      \<lparr> sign = ''Leo'', long = 120 \<rparr>,
      \<lparr> sign = ''Virgo'', long = 150 \<rparr>,
      \<lparr> sign = ''Libra'', long = 180 \<rparr>,
      \<lparr> sign = ''Scorpio'', long = 210 \<rparr>,
      \<lparr> sign = ''Sagittarius'', long = 240 \<rparr>,
      \<lparr> sign = ''Capricorn'', long = 270 \<rparr>,
      \<lparr> sign = ''Aquarius'', long = 300 \<rparr>,
      \<lparr> sign = ''Pisces'', long = 330 \<rparr>]"

definition normalize_v :: "real \<Rightarrow> real" where
  "normalize_v v = (let v1 = v - real_of_int \<lfloor>v\<rfloor> in if v1 < 0 then v1 + 1 else v1)"

text \<open>
  The host's calendar: the civil date of a day number (days since 1970-01-01) in the
  proleptic Gregorian calendar, and the getters of \<^verbatim>\<open>Date\<close> in the local time of the
  host. \<^verbatim>\<open>getMonth\<close> counts from 0.
\<close>

definition civilFromDays :: "int \<Rightarrow> int \<times> int \<times> int" where
  "civilFromDays z0 =
     (let z = z0 + 719468;
          era = z div 146097;
          doe = z mod 146097;
          yoe = (doe - doe div 1460 + doe div 36524 - doe div 146096) div 365;
          y = yoe + era * 400;
          doy = doe - (365 * yoe + yoe div 4 - yoe div 100);
          mp = (5 * doy + 2) div 153;
          d = doy - (153 * mp + 2) div 5 + 1;
          m = (if mp < 10 then mp + 3 else mp - 9)
      in (if m \<le> 2 then y + 1 else y, m, d))"

definition localDay :: "(timeValue \<Rightarrow> bool \<Rightarrow> int) \<Rightarrow> timeValue \<Rightarrow> int" where
  "localDay tz t = (t + tz t True) div msPerDay"

definition getFullYear :: "(timeValue \<Rightarrow> bool \<Rightarrow> int) \<Rightarrow> timeValue \<Rightarrow> int" where
  "getFullYear tz t = fst (civilFromDays (localDay tz t))"

definition getMonth :: "(timeValue \<Rightarrow> bool \<Rightarrow> int) \<Rightarrow> timeValue \<Rightarrow> int" where
  "getMonth tz t = fst (snd (civilFromDays (localDay tz t))) - 1"

definition getDate :: "(timeValue \<Rightarrow> bool \<Rightarrow> int) \<Rightarrow> timeValue \<Rightarrow> int" where
  "getDate tz t = snd (snd (civilFromDays (localDay tz t)))"

text \<open>
  The body of \<^verbatim>\<open>getMoonCoords\<close> of \<^verbatim>\<open>src/unnamed/part_001\<close>, in the order of the source.
  Its first lines, up to \<^verbatim>\<open>distance\<close>, and the right ascension and declination of its
  result are those of \<^verbatim>\<open>getMoonCoords\<close> of \<^verbatim>\<open>src/index.ts\<close>. Then come the day number
  \<^verbatim>\<open>jd\<close> of the civil date, the latitude and the longitude from \<^verbatim>\<open>jd\<close>, and the lookup of
  the sign.
\<close>

definition civilJulianDay :: "int \<Rightarrow> int \<Rightarrow> int \<Rightarrow> real" where
  "civilJulianDay year month day =
     (let yy = real_of_int year - real_of_int \<lfloor>(12 - real_of_int month) / 10\<rfloor>;
          mm = real_of_int month + 9;
          mm1 = (if 12 \<le> mm then mm - 12 else mm);
          k1 = real_of_int \<lfloor>365.25 * (yy + 4712)\<rfloor>;
          k2 = real_of_int \<lfloor>30.6 * mm1 + 0.5\<rfloor>;
          k3 = real_of_int \<lfloor>real_of_int \<lfloor>(yy / 100) + 49\<rfloor> * 0.75\<rfloor> - 38;
          jd = k1 + k2 + real_of_int day + 59
      in if 2299160 < jd then jd - k3 else jd)"

definition zodiacLatitude :: "real \<Rightarrow> real" where
  "zodiacLatitude jd =
     (let np = 2 * pi * normalize_v ((jd - 2451565.2) / 27.212220817)
      in 5.1 * sin np)"

definition zodiacLongitude :: "real \<Rightarrow> real" where
  "zodiacLongitude jd =
     (let ip0 = normalize_v ((jd - 2451550.1) / 29.530588853);
          ip = ip0 * 2 * pi;
          dp = 2 * pi * normalize_v ((jd - 2451562.2) / 27.55454988);
          rp = normalize_v ((jd - 2451555.8) / 27.321582241)
      in 360 * rp + 6.3 * sin dp + 1.3 * sin (2 * ip - dp) + 0.7 * sin (2 * ip))"

definition lookupZodiac :: "real \<Rightarrow> error + string" where
  "lookupZodiac longitude0 =
     (case filter (\<lambda>z. long z \<le> longitude0 \<and> longitude0 < long z + 30) zodiacs of
        [] \<Rightarrow> Inl TypeError
      | z # zs \<Rightarrow> Inr (sign z))"

record MoonCoordinatesZ = MoonCoordinates +
  latitude :: real
  longitude :: real
  zodiacSign :: string

definition getMoonCoordsZ ::
  "(timeValue \<Rightarrow> bool \<Rightarrow> int) \<Rightarrow> timeValue \<Rightarrow> real \<Rightarrow> error + MoonCoordinatesZ" where
  "getMoonCoordsZ tz date days =
     (let c = getMoonCoords days;
          year = getFullYear tz date;
          month = getMonth tz date + 1;
          day = getDate tz date;
          jd = civilJulianDay year month day;
          latitude0 = zodiacLatitude jd;
          longitude0 = zodiacLongitude jd
      in case lookupZodiac longitude0 of
           Inl err \<Rightarrow> Inl err
         | Inr zodiacSign0 \<Rightarrow>
             Inr \<lparr> declination = declination c,
                   rightAscension = rightAscension c,
                   distance = distance c,
                   latitude = latitude0,
                   longitude = longitude0,
                   zodiacSign = zodiacSign0 \<rparr>)"

record MoonPositionZ = MoonPosition +
  moonLatitude :: real
  moonLongitude :: real
  moonZodiacSign :: string

definition getMoonPositionZ ::
  "(timeValue \<Rightarrow> bool \<Rightarrow> int) \<Rightarrow> timeValue \<Rightarrow> real \<Rightarrow> real \<Rightarrow> error + MoonPositionZ" where
  "getMoonPositionZ tz date lat lon =
     (let lw = rad * - lon;
          phi = rad * lat;
          days = getDays date
      in case getMoonCoordsZ tz date days of
           Inl err \<Rightarrow> Inl err
         | Inr moonCoords \<Rightarrow>
             (let siderealTime = getSiderealTime days lw - rightAscension moonCoords;
                  altitude0 = getAltitude siderealTime phi (declination moonCoords);
                  parallactic = atan2 (sin siderealTime)
                    (tan phi * cos (declination moonCoords) - sin (declination moonCoords) * cos siderealTime);
                  altitude1 = altitude0 + getAstroRefraction altitude0
              in Inr \<lparr> azimuth = getAzimuth siderealTime phi (declination moonCoords),
                       altitude = altitude1,
                       distance_km = distance moonCoords,
                       parallacticAngle = parallactic,
                       moonLatitude = latitude moonCoords,
                       moonLongitude = longitude moonCoords,
                       moonZodiacSign = zodiacSign moonCoords \<rparr>))"

text \<open>
  \<^verbatim>\<open>getMoonPhase\<close> and \<^verbatim>\<open>getMoonTimes\<close> of \<^verbatim>\<open>src/unnamed/part_001\<close> are those of
  \<^verbatim>\<open>src/index.ts\<close> with the calls of \<^verbatim>\<open>getMoonCoords\<close> and \<^verbatim>\<open>getMoonPosition\<close> that can
  throw; an exception leaves the function at the call that throws it.
\<close>

definition getMoonPhaseZ :: "(timeValue \<Rightarrow> bool \<Rightarrow> int) \<Rightarrow> timeValue \<Rightarrow> error + MoonPhase" where
  "getMoonPhaseZ tz date =
     (let days = getDays date;
          sunCoords = getSunCoords days
      in case getMoonCoordsZ tz date days of
           Inl err \<Rightarrow> Inl err
         | Inr moonCoords \<Rightarrow>
             (let sunDistance = 149598000;
                  phi = arccos (sin (declination sunCoords) * sin (declination moonCoords)
                          + cos (declination sunCoords) * cos (declination moonCoords)
                            * cos (rightAscension sunCoords - rightAscension moonCoords));
                  inc = atan2 (sunDistance * sin phi) (distance moonCoords - sunDistance * cos phi);
                  angle0 = atan2 (cos (declination sunCoords) * sin (rightAscension sunCoords - rightAscension moonCoords))
                            (sin (declination sunCoords) * cos (declination moonCoords)
                               - cos (declination sunCoords) * sin (declination moonCoords)
                                 * cos (rightAscension sunCoords - rightAscension moonCoords))
              in Inr \<lparr> fraction = (1 + cos inc) / 2,
                       phase = 0.5 + 0.5 * inc * (if angle0 < 0 then - 1 else 1) / pi,
                       angle = angle0 \<rparr>))"

definition moonAltitudeAtZ ::
  "(timeValue \<Rightarrow> bool \<Rightarrow> int) \<Rightarrow> timeValue \<Rightarrow> real \<Rightarrow> real \<Rightarrow> real \<Rightarrow> error + real" where
  "moonAltitudeAtZ tz date lat lon hours =
     (case getMoonPositionZ tz (valueOf (hoursShift date hours)) lat lon of
        Inl err \<Rightarrow> Inl err
      | Inr p \<Rightarrow> Inr (altitude p - hc))"

function moonLoopZ ::
  "(timeValue \<Rightarrow> bool \<Rightarrow> int) \<Rightarrow> timeValue \<Rightarrow> real \<Rightarrow> real \<Rightarrow> nat \<Rightarrow> MoonScan \<Rightarrow> error + MoonScan" where
  "moonLoopZ tz date lat lon i st =
     (if i \<le> 24 then
        (case moonAltitudeAtZ tz date lat lon (real i) of
           Inl err \<Rightarrow> Inl err
         | Inr h1 \<Rightarrow>
             (case moonAltitudeAtZ tz date lat lon (real (i + 1)) of
                Inl err \<Rightarrow> Inl err
              | Inr h2 \<Rightarrow>
                  (let st1 = moonWindow (real i) h1 h2 st
                   in if truthy (rise st1) \<and> truthy (setv st1) then Inr st1
                      else moonLoopZ tz date lat lon (i + 2) (st1\<lparr> h0 := h2 \<rparr>))))
      else Inr st)"
  by pat_completeness auto
termination
  by (relation "measure (\<lambda>(tz, date, lat, lon, i, st). 25 - i)") auto

definition getMoonTimesZ ::
  "(timeValue \<Rightarrow> bool \<Rightarrow> int) \<Rightarrow> timeValue \<Rightarrow> real \<Rightarrow> real \<Rightarrow> timeValue \<times> (error + MoonTimes)" where
  "getMoonTimesZ tz date0 lat lon =
     (let date = setHours0 tz date0
      in (date,
          case getMoonPositionZ tz date lat lon of
            Inl err \<Rightarrow> Inl err
          | Inr p \<Rightarrow>
              (let st0 = \<lparr> h0 = altitude p - hc,
                           rise = None, setv = None, ye = Some 0, x1 = Some 0, x2 = Some 0 \<rparr>
               in case moonLoopZ tz date lat lon 1 st0 of
                    Inl err \<Rightarrow> Inl err
                  | Inr st \<Rightarrow> Inr (moonResult date st))))"

subsection \<open>The Julian conversions in double precision\<close>

text \<open>
  A number of the source is an IEEE 754 double. \<open>toDouble x\<close> is the double nearest to
  the real \<open>x\<close>, ties to even, for \<open>x\<close> in the range of the normal doubles: with
  \<open>2\<^sup>k \<le> \<bar>x\<bar> < 2\<^sup>k\<^sup>+\<^sup>1\<close> it is a multiple of \<open>2\<^sup>k\<^sup>-\<^sup>5\<^sup>2\<close>. Every arithmetic operation of the
  source returns the double nearest to its exact result. \<open>toJulianD\<close> and
  \<open>julianDateToDateD\<close> are \<^verbatim>\<open>toJulian\<close> and \<^verbatim>\<open>julianDateToDate\<close> with this rounding after
  each operation; the time value of a date and the constants are doubles already.
\<close>

definition roundEven :: "real \<Rightarrow> int" where
  "roundEven y =
     (let f = \<lfloor>y\<rfloor>;
          r = y - real_of_int f
      in if r < 1 / 2 then f
         else if 1 / 2 < r then f + 1
         else if even f then f else f + 1)"

definition toDouble :: "real \<Rightarrow> real" where
  "toDouble x =
     (if x = 0 then 0
      else (let u = 2 powr (real_of_int \<lfloor>log 2 \<bar>x\<bar>\<rfloor> - 52)
            in real_of_int (roundEven (x / u)) * u))"

definition toJulianD :: "timeValue \<Rightarrow> real" where
  "toJulianD date = toDouble (toDouble (toDouble (real_of_int date / dayMills) - 0.5) + julian1970)"

definition julianDateToDateD :: "real \<Rightarrow> Date" where
  "julianDateToDateD juian =
     newDate (Some (toDouble (toDouble (toDouble (juian + 0.5) - julian1970) * dayMills)))"

section \<open>Properties\<close>

subsection \<open>The host's functions\<close>

lemma atan2_bounds: "- pi < atan2 y x \<and> atan2 y x \<le> pi"
proof -
  have a: "- (pi / 2) < arctan (y / x)" "arctan (y / x) < pi / 2"
    using arctan_lbound [of "y / x"] arctan_ubound [of "y / x"] by linarith+
  have pos: "0 < pi" by simp
  consider (right) "0 < x" | (upleft) "x < 0" "0 \<le> y" | (downleft) "x < 0" "y < 0"
    | (up) "x = 0" "0 < y" | (down) "x = 0" "y < 0" | (origin) "x = 0" "y = 0"
    by linarith
  then show ?thesis
  proof cases
    case right
    then have "atan2 y x = arctan (y / x)" by (simp add: atan2_def)
    then show ?thesis using a pos by linarith
  next
    case upleft
    then have "y / x \<le> 0" by (simp add: divide_nonneg_neg)
    then have "arctan (y / x) \<le> 0" by simp
    moreover have "atan2 y x = arctan (y / x) + pi" using upleft by (simp add: atan2_def)
    ultimately show ?thesis using a pos by linarith
  next
    case downleft
    then have "0 < y / x" by (simp add: divide_neg_neg)
    then have "0 < arctan (y / x)" by simp
    moreover have "atan2 y x = arctan (y / x) - pi" using downleft by (simp add: atan2_def)
    ultimately show ?thesis using a pos by linarith
  next
    case up
    then have "atan2 y x = pi / 2" by (simp add: atan2_def)
    then show ?thesis using pos by linarith
  next
    case down
    then have "atan2 y x = - (pi / 2)" by (simp add: atan2_def)
    then show ?thesis using pos by linarith
  next
    case origin
    then have "atan2 y x = 0" by (simp add: atan2_def)
    then show ?thesis using pos by linarith
  qed
qed

lemma sin_le_neg_half:
  fixes x :: real
  assumes "7 * pi / 6 \<le> x" "x \<le> 11 * pi / 6"
  shows "sin x \<le> - (1 / 2)"
proof -
  define y where "y = x - 3 * pi / 2"
  have "y \<le> pi / 3" "- y \<le> pi / 3" using assms unfolding y_def by (simp_all add: field_simps)
  then have yb: "\<bar>y\<bar> \<le> pi / 3" by (simp add: abs_le_iff)
  have "0 \<le> \<bar>y\<bar>" by simp
  moreover have "pi / 3 \<le> pi" by simp
  ultimately have "cos (pi / 3) \<le> cos \<bar>y\<bar>"
    using yb cos_monotone_0_pi_le [of "\<bar>y\<bar>" "pi / 3"] by simp
  then have c: "1 / 2 \<le> cos y" by (simp add: cos_60)
  have "x = y + 3 * pi / 2" by (simp add: y_def)
  then have "sin x = sin (y + 3 * pi / 2)" by simp
  also have "\<dots> = sin y * cos (3 * pi / 2) + cos y * sin (3 * pi / 2)" by (rule sin_add)
  also have "\<dots> = - cos y"
  proof -
    have "cos (3 * pi / 2) = 0" using cos_3over2_pi by simp
    moreover have "sin (3 * pi / 2) = - 1" using sin_3over2_pi by simp
    ultimately show ?thesis by simp
  qed
  finally show ?thesis using c by simp
qed

text \<open>
  The arguments of \<^verbatim>\<open>asin\<close> and \<^verbatim>\<open>acos\<close> outside \<^verbatim>\<open>getHourAngle\<close> are inner products of
  unit vectors and lie in \<open>[-1, 1]\<close>.
\<close>

lemma unit_dot_bounded:
  fixes a b c :: real
  assumes "\<bar>c\<bar> \<le> 1"
  shows "\<bar>sin a * sin b + cos a * cos b * c\<bar> \<le> 1"
proof -
  have "\<bar>sin a * sin b + cos a * cos b * c\<bar> \<le> \<bar>sin a * sin b\<bar> + \<bar>cos a * cos b * c\<bar>"
    by (rule abs_triangle_ineq)
  also have "\<bar>cos a * cos b * c\<bar> = \<bar>cos a * cos b\<bar> * \<bar>c\<bar>" by (simp add: abs_mult)
  also have "\<bar>sin a * sin b\<bar> + \<bar>cos a * cos b\<bar> * \<bar>c\<bar> \<le> \<bar>sin a * sin b\<bar> + \<bar>cos a * cos b\<bar>"
    using assms by (simp add: mult_left_le)
  also have "\<dots> \<le> 1"
  proof -
    have s: "(sin a)\<^sup>2 + (cos a)\<^sup>2 = 1" "(sin b)\<^sup>2 + (cos b)\<^sup>2 = 1" by simp_all
    have 1: "2 * (\<bar>sin a\<bar> * \<bar>sin b\<bar>) \<le> (sin a)\<^sup>2 + (sin b)\<^sup>2"
      using sum_squares_bound [of "\<bar>sin a\<bar>" "\<bar>sin b\<bar>"] by (simp add: mult.assoc)
    have 2: "2 * (\<bar>cos a\<bar> * \<bar>cos b\<bar>) \<le> (cos a)\<^sup>2 + (cos b)\<^sup>2"
      using sum_squares_bound [of "\<bar>cos a\<bar>" "\<bar>cos b\<bar>"] by (simp add: mult.assoc)
    from 1 2 s have "2 * (\<bar>sin a\<bar> * \<bar>sin b\<bar>) + 2 * (\<bar>cos a\<bar> * \<bar>cos b\<bar>) \<le> 2" by linarith
    then show ?thesis by (simp add: abs_mult)
  qed
  finally show ?thesis by simp
qed

lemma getAltitude_arg_in_range: "\<bar>sin phi * sin dec + cos phi * cos dec * cos h\<bar> \<le> (1::real)"
  by (rule unit_dot_bounded) simp

lemma getDeclination_arg_in_range: "\<bar>sin lat * cos e_obl + cos lat * sin e_obl * sin lon\<bar> \<le> 1"
  using unit_dot_bounded [of "sin lon" lat "pi / 2 - e_obl"] by (simp add: sin_diff cos_diff)

lemma getMoonPhase_arg_in_range:
  "\<bar>sin d1 * sin d2 + cos d1 * cos d2 * cos (r1 - r2)\<bar> \<le> (1::real)"
  by (rule unit_dot_bounded) simp

lemma sunDeclination_arg_in_range: "\<bar>sin l * sin e_obl\<bar> \<le> 1"
proof -
  have "\<bar>sin l\<bar> * \<bar>sin e_obl\<bar> \<le> 1 * 1"
    by (rule mult_mono) simp_all
  then show ?thesis by (simp add: abs_mult)
qed

text \<open>In exact arithmetic the two Julian conversions are inverse to each other.\<close>

lemma toInteger_of_int: "toInteger (real_of_int t) = t"
  by (simp add: toInteger_def)

lemma julian_roundtrip_exact:
  assumes "\<bar>t\<bar> \<le> 8640000000000000"
  shows "julianDateToDate (Some (toJulian t)) = Date t"
proof -
  have e: "(toJulian t + 0.5 - julian1970) * dayMills = real_of_int t"
    by (simp add: toJulian_def dayMills_def)
  have "real_of_int \<bar>t\<bar> \<le> real_of_int 8640000000000000" using assms by (rule of_int_le_iff [THEN iffD2])
  then have "\<not> 8640000000000000 < \<bar>real_of_int t\<bar>" by simp
  then show ?thesis unfolding julianDateToDate_def newDate_def option.map option.case e
    by (simp add: toInteger_of_int)
qed

subsection \<open>Sun times\<close>

lemma julianDateToDate_None: "julianDateToDate None = InvalidDate"
  by (simp add: julianDateToDate_def newDate_def)

lemma sunset_none_iff: "(getSunsetJulianDate w m l lw jc = None) = (w = None)"
  by (simp add: getSunsetJulianDate_def)

lemma sunrise_none_iff: "(getSunriseJulianDate t s = None) = (s = None)"
  by (simp add: getSunriseJulianDate_def)

lemma locals_none:
  "(julianSet (sunTimesLocals date lat lon) = None) = (w0 (sunTimesLocals date lat lon) = None)"
  "(julianRise (sunTimesLocals date lat lon) = None) = (w0 (sunTimesLocals date lat lon) = None)"
  "(julianSetStart (sunTimesLocals date lat lon) = None) = (w1 (sunTimesLocals date lat lon) = None)"
  "(julianRiseEnd (sunTimesLocals date lat lon) = None) = (w1 (sunTimesLocals date lat lon) = None)"
  "(julianNautical (sunTimesLocals date lat lon) = None) = (w2 (sunTimesLocals date lat lon) = None)"
  "(julianCivil (sunTimesLocals date lat lon) = None) = (w2 (sunTimesLocals date lat lon) = None)"
  "(julianAstro (sunTimesLocals date lat lon) = None) = (w3 (sunTimesLocals date lat lon) = None)"
  "(julianNautical2 (sunTimesLocals date lat lon) = None) = (w3 (sunTimesLocals date lat lon) = None)"
  "(julianDark (sunTimesLocals date lat lon) = None) = (w4 (sunTimesLocals date lat lon) = None)"
  "(julianAsto2 (sunTimesLocals date lat lon) = None) = (w4 (sunTimesLocals date lat lon) = None)"
  by (simp_all add: sunTimesLocals_def Let_def sunset_none_iff sunrise_none_iff)

lemma locals_hour_angles:
  "w0 (sunTimesLocals date lat lon) =
     getHourAngle sunsetAngle (lat * rad) (sunDeclination (sunTimesLocals date lat lon))"
  "w1 (sunTimesLocals date lat lon) =
     getHourAngle (sunsetAngle + sunDiameter) (lat * rad) (sunDeclination (sunTimesLocals date lat lon))"
  "w2 (sunTimesLocals date lat lon) =
     getHourAngle nauticalTwilightAngle (lat * rad) (sunDeclination (sunTimesLocals date lat lon))"
  "w3 (sunTimesLocals date lat lon) =
     getHourAngle astronomicalTwilightAngle (lat * rad) (sunDeclination (sunTimesLocals date lat lon))"
  "w4 (sunTimesLocals date lat lon) =
     getHourAngle darknessAngle (lat * rad) (sunDeclination (sunTimesLocals date lat lon))"
  by (simp_all add: sunTimesLocals_def Let_def)

lemma sunTimes_fields:
  "start (sunrise (getSunTimes date lat lon)) = julianDateToDate (julianRise (sunTimesLocals date lat lon))"
  "end' (sunrise (getSunTimes date lat lon)) = julianDateToDate (julianRiseEnd (sunTimesLocals date lat lon))"
  "start (civilDawn (getSunTimes date lat lon)) = julianDateToDate (julianCivil (sunTimesLocals date lat lon))"
  "end' (civilDawn (getSunTimes date lat lon)) = julianDateToDate (julianRise (sunTimesLocals date lat lon))"
  "start (nauticalDawn (getSunTimes date lat lon)) = julianDateToDate (julianNautical2 (sunTimesLocals date lat lon))"
  "end' (nauticalDawn (getSunTimes date lat lon)) = julianDateToDate (julianCivil (sunTimesLocals date lat lon))"
  "start (astronomicalDawn (getSunTimes date lat lon)) = julianDateToDate (julianAsto2 (sunTimesLocals date lat lon))"
  "end' (astronomicalDawn (getSunTimes date lat lon)) = julianDateToDate (julianNautical2 (sunTimesLocals date lat lon))"
  "dawn (getSunTimes date lat lon) = julianDateToDate (julianCivil (sunTimesLocals date lat lon))"
  "start (sunset (getSunTimes date lat lon)) = julianDateToDate (julianSetStart (sunTimesLocals date lat lon))"
  "end' (sunset (getSunTimes date lat lon)) = julianDateToDate (julianSet (sunTimesLocals date lat lon))"
  "start (civilDusk (getSunTimes date lat lon)) = julianDateToDate (julianSet (sunTimesLocals date lat lon))"
  "end' (civilDusk (getSunTimes date lat lon)) = julianDateToDate (julianNautical (sunTimesLocals date lat lon))"
  "start (nauticalDusk (getSunTimes date lat lon)) = julianDateToDate (julianNautical (sunTimesLocals date lat lon))"
  "end' (nauticalDusk (getSunTimes date lat lon)) = julianDateToDate (julianAstro (sunTimesLocals date lat lon))"
  "start (astronomicalDusk (getSunTimes date lat lon)) = julianDateToDate (julianAstro (sunTimesLocals date lat lon))"
  "end' (astronomicalDusk (getSunTimes date lat lon)) = julianDateToDate (julianDark (sunTimesLocals date lat lon))"
  "dusk (getSunTimes date lat lon) = julianDateToDate (julianNautical (sunTimesLocals date lat lon))"
  "transit (getSunTimes date lat lon) = julianDateToDate (Some (julianTransit (sunTimesLocals date lat lon)))"
  by (simp_all add: getSunTimes_def Let_def)

lemma locals_symmetric:
  "julianRise (sunTimesLocals date lat lon) =
     getSunriseJulianDate (julianTransit (sunTimesLocals date lat lon)) (julianSet (sunTimesLocals date lat lon))"
  "julianRiseEnd (sunTimesLocals date lat lon) =
     getSunriseJulianDate (julianTransit (sunTimesLocals date lat lon)) (julianSetStart (sunTimesLocals date lat lon))"
  "julianCivil (sunTimesLocals date lat lon) =
     getSunriseJulianDate (julianTransit (sunTimesLocals date lat lon)) (julianNautical (sunTimesLocals date lat lon))"
  "julianNautical2 (sunTimesLocals date lat lon) =
     getSunriseJulianDate (julianTransit (sunTimesLocals date lat lon)) (julianAstro (sunTimesLocals date lat lon))"
  "julianAsto2 (sunTimesLocals date lat lon) =
     getSunriseJulianDate (julianTransit (sunTimesLocals date lat lon)) (julianDark (sunTimesLocals date lat lon))"
  by (simp_all add: sunTimesLocals_def Let_def)

text \<open>At the pole the divisor of the hour-angle equation is zero, whatever the declination.\<close>

lemma pole_hour_angle: "getHourAngle h (90 * rad) dec = None"
proof -
  have "90 * rad = pi / 2" by (simp add: rad_def)
  then have "cos (90 * rad) = 0" by (simp only: cos_pi_half)
  then show ?thesis by (simp add: getHourAngle_def acosDiv_def)
qed

text \<open>
  Polar night: on 1999-01-01 at latitude 89 the quotient of the hour-angle equation for the
  sunset threshold exceeds 1. The ecliptic longitude is between 210 and 330 degrees, so
  the declination is southern.
\<close>

lemma sin_ge_half:
  fixes x :: real
  assumes "pi / 6 \<le> x" "x \<le> 5 * pi / 6"
  shows "1 / 2 \<le> sin x"
proof -
  have "sin (x + pi) \<le> - (1 / 2)"
    by (rule sin_le_neg_half) (use assms in \<open>simp_all add: field_simps\<close>)
  then show ?thesis by simp
qed

lemma rad_pos: "0 < rad"
  by (simp add: rad_def)

lemma rad_less: "rad < 4 / 180"
  using pi_less_4 by (simp add: rad_def)

lemma pi_deg: "pi = rad * 180" "pi / 6 = rad * 30" "5 * pi / 6 = rad * 150"
  "7 * pi / 6 = rad * 210" "11 * pi / 6 = rad * 330" "pi / 2 = rad * 90"
  by (simp_all add: rad_def)

lemma sin_e_obl: "1 / 4 \<le> sin e_obl"
proof -
  have b: "pi / 6 \<le> 2 * e_obl" "2 * e_obl \<le> 5 * pi / 6"
    unfolding pi_deg e_obl_def using rad_pos by simp_all
  then have h: "1 / 2 \<le> sin (2 * e_obl)" by (rule sin_ge_half)
  have "0 \<le> e_obl" "e_obl \<le> pi" unfolding pi_deg e_obl_def using rad_pos by simp_all
  then have s0: "0 \<le> sin e_obl" by (rule sin_ge_zero)
  have "sin e_obl * cos e_obl \<le> sin e_obl * 1" using s0 by (intro mult_left_mono) simp_all
  then have "sin (2 * e_obl) \<le> 2 * sin e_obl" by (simp add: sin_double)
  then show ?thesis using h by linarith
qed

lemma acosDiv_none: "0 \<le> d \<Longrightarrow> d < n \<Longrightarrow> acosDiv n d = None"
  by (simp add: acosDiv_def)

lemma equationOfCenter_bounds:
  "- (rad * 1.9351) \<le> getEquationOfCenter m \<and> getEquationOfCenter m \<le> rad * 1.9351"
proof -
  define X where "X = 19148 * sin m + 200 * sin (2 * m) + 3 * sin (3 * m)"
  have s: "- 1 \<le> sin m" "sin m \<le> 1" "- 1 \<le> sin (2 * m)" "sin (2 * m) \<le> 1"
    "- 1 \<le> sin (3 * m)" "sin (3 * m) \<le> 1" by simp_all
  have X: "- 19351 \<le> X" "X \<le> 19351" unfolding X_def using s by linarith+
  have e: "getEquationOfCenter m = rad * (X / 10000)"
    by (simp add: getEquationOfCenter_def X_def)
  have "- (19351 / 10000) \<le> X / 10000" "X / 10000 \<le> 19351 / 10000" using X by simp_all
  then have "rad * (- (19351 / 10000)) \<le> rad * (X / 10000)"
    and "rad * (X / 10000) \<le> rad * (19351 / 10000)"
    using rad_pos by (simp_all only: mult_le_cancel_left_pos)
  then show ?thesis unfolding e by simp
qed

lemma eclipticLongitude_bounds:
  "rad * (d + 281.0021) \<le> getSolarEclipticLongitude (rad * d)
   \<and> getSolarEclipticLongitude (rad * d) \<le> rad * (d + 284.8723)"
proof -
  have e: "getSolarEclipticLongitude (rad * d)
      = rad * d + getEquationOfCenter (rad * d) + rad * 102.9372 + rad * 180"
    by (simp add: getSolarEclipticLongitude_def Let_def pi_deg(1) [symmetric])
  have l: "rad * (d + 281.0021) = rad * d - rad * 1.9351 + rad * 102.9372 + rad * 180"
    by (simp add: algebra_simps)
  have u: "rad * (d + 284.8723) = rad * d + rad * 1.9351 + rad * 102.9372 + rad * 180"
    by (simp add: algebra_simps)
  show ?thesis unfolding e l u using equationOfCenter_bounds [of "rad * d"] by linarith
qed

lemma meanAnomaly_1999:
  "getSolarMeanAnomaly
     (getApproxSolarTransit 0 (- 0 * rad) (getJulianCycle (toJulian 915192000000) (- 0 * rad)) - julian2000)
   = rad * (357.5291 + 0.98560028 * (- 364.9991))"
proof -
  have j: "toJulian 915192000000 = 2451180"
    by (simp add: toJulian_def dayMills_def julian1970_def)
  have c: "getJulianCycle 2451180 (- 0 * rad) = - 365"
    by (simp add: getJulianCycle_def julian2000_def julian0_def round_def)
  show ?thesis unfolding j c
    by (simp add: getSolarMeanAnomaly_def getApproxSolarTransit_def julian2000_def julian0_def)
qed

lemma eclipticLongitude_1999:
  "sin (getSolarEclipticLongitude (rad * (357.5291 + 0.98560028 * (- 364.9991)))) \<le> - (1 / 2)"
proof -
  let ?d = "357.5291 + 0.98560028 * (- 364.9991) :: real"
  have b: "rad * (?d + 281.0021) \<le> getSolarEclipticLongitude (rad * ?d)"
    "getSolarEclipticLongitude (rad * ?d) \<le> rad * (?d + 284.8723)"
    using eclipticLongitude_bounds [of ?d] by simp_all
  have "rad * 210 \<le> rad * (?d + 281.0021)" using rad_pos by (simp only: mult_le_cancel_left_pos) simp
  moreover have "rad * (?d + 284.8723) \<le> rad * 330" using rad_pos by (simp only: mult_le_cancel_left_pos) simp
  ultimately have "7 * pi / 6 \<le> getSolarEclipticLongitude (rad * ?d)"
    and "getSolarEclipticLongitude (rad * ?d) \<le> 11 * pi / 6"
    unfolding pi_deg using b by linarith+
  then show ?thesis by (rule sin_le_neg_half)
qed

lemma polar_night_1999:
  assumes sl: "sin l \<le> - (1 / 2)"
  shows "getHourAngle sunsetAngle (89 * rad) (arcsin (sin l * sin e_obl)) = None"
proof -
  define dec where "dec = arcsin (sin l * sin e_obl)"
  have r: "- 1 \<le> sin l * sin e_obl" "sin l * sin e_obl \<le> 1"
    using sunDeclination_arg_in_range [of l] by (simp_all add: abs_le_iff)
  have sd: "sin dec = sin l * sin e_obl" unfolding dec_def using r by (rule sin_arcsin)
  have se: "1 / 4 \<le> sin e_obl" by (rule sin_e_obl)
  have "sin l * sin e_obl \<le> (- (1 / 2)) * sin e_obl"
    using sl se by (intro mult_right_mono) simp_all
  then have sd8: "sin dec \<le> - (1 / 8)" unfolding sd using se by linarith
  have "pi / 6 \<le> 89 * rad" "89 * rad \<le> 5 * pi / 6" unfolding pi_deg using rad_pos by simp_all
  then have sp: "1 / 2 \<le> sin (89 * rad)" by (rule sin_ge_half)
  have "sin (89 * rad) * sin dec \<le> (1 / 2) * sin dec"
    using sp sd8 by (intro mult_right_mono_neg) simp_all
  then have prod: "sin (89 * rad) * sin dec \<le> - (1 / 16)" using sd8 by linarith
  have "sin (0.83 * rad) \<le> 0.83 * rad" using rad_pos by (intro sin_x_le_x) simp
  then have "sin sunsetAngle \<ge> - (0.83 * rad)" by (simp add: sunsetAngle_def)
  moreover have "0.83 * rad < 0.83 * (4 / 180)" using rad_less by simp
  ultimately have sh: "- (83 / 4500) \<le> sin sunsetAngle" by simp
  have n: "1 / 25 \<le> sin sunsetAngle - sin (89 * rad) * sin dec" using sh prod by linarith
  have "89 * rad = pi / 2 - rad" by (simp add: rad_def)
  then have "cos (89 * rad) = cos (pi / 2 - rad)" by (rule arg_cong)
  also have "\<dots> = sin rad" by (simp add: cos_diff)
  finally have "cos (89 * rad) = sin rad" .
  moreover have "sin rad \<le> rad" using rad_pos by (intro sin_x_le_x) simp
  ultimately have cp: "cos (89 * rad) < 1 / 45" using rad_less by simp
  have "- (pi / 2) \<le> 89 * rad" "89 * rad \<le> pi / 2" unfolding pi_deg using rad_pos by simp_all
  then have cp0: "0 \<le> cos (89 * rad)" by (rule cos_ge_zero)
  have "- (pi / 2) \<le> dec" "dec \<le> pi / 2" unfolding dec_def using arcsin_bounded [OF r] by simp_all
  then have cd0: "0 \<le> cos dec" by (rule cos_ge_zero)
  have d0: "0 \<le> cos (89 * rad) * cos dec" using cp0 cd0 by simp
  have "cos (89 * rad) * cos dec \<le> cos (89 * rad) * 1" using cp0 by (intro mult_left_mono) simp_all
  then have d1: "cos (89 * rad) * cos dec < sin sunsetAngle - sin (89 * rad) * sin dec"
    using cp n by linarith
  show ?thesis unfolding getHourAngle_def dec_def [symmetric] using d0 d1 by (rule acosDiv_none)
qed

lemma w0_1999: "w0 (sunTimesLocals 915192000000 89 0) = None"
proof -
  have "w0 (sunTimesLocals 915192000000 89 0)
      = getHourAngle sunsetAngle (89 * rad)
          (arcsin (sin (getSolarEclipticLongitude (rad * (357.5291 + 0.98560028 * (- 364.9991)))) * sin e_obl))"
    unfolding sunTimesLocals_def Let_def meanAnomaly_1999 by simp
  then show ?thesis using polar_night_1999 [OF eclipticLongitude_1999] by simp
qed

text \<open>At the equator every threshold has a crossing on every day.\<close>

lemma acosDiv_some: "\<bar>n\<bar> < d \<Longrightarrow> acosDiv n d = Some (arccos (n / d))"
proof -
  assume a: "\<bar>n\<bar> < d"
  then have d: "0 < d" by linarith
  have "- 1 \<le> n / d" "n / d \<le> 1" using a d by (simp_all add: pos_le_divide_eq pos_divide_le_eq)
  then show ?thesis using d by (simp add: acosDiv_def)
qed

lemma sin_e_obl_le: "sin e_obl \<le> 1 / 2"
proof -
  have "- (pi / 2) \<le> e_obl" "e_obl \<le> pi / 6" "pi / 6 \<le> pi / 2"
    unfolding pi_deg e_obl_def using rad_pos by simp_all
  then have "sin e_obl \<le> sin (pi / 6)" by (intro sin_monotone_2pi_le) simp_all
  then show ?thesis by (simp add: sin_30)
qed

lemma cos_declination_ge_half: "1 / 2 \<le> cos (arcsin (sin l * sin e_obl))"
proof -
  define y where "y = sin l * sin e_obl"
  have r: "- 1 \<le> y" "y \<le> 1"
    unfolding y_def using sunDeclination_arg_in_range [of l] by (simp_all add: abs_le_iff)
  have se: "0 \<le> sin e_obl" "sin e_obl \<le> 1 / 2" using sin_e_obl sin_e_obl_le by linarith+
  have "\<bar>y\<bar> = \<bar>sin l\<bar> * sin e_obl" unfolding y_def using se by (simp add: abs_mult)
  also have "\<dots> \<le> 1 * sin e_obl" using se by (intro mult_right_mono) simp_all
  finally have ya: "\<bar>y\<bar> \<le> 1 / 2" using se by linarith
  have "y\<^sup>2 = \<bar>y\<bar>\<^sup>2" by simp
  also have "\<dots> \<le> (1 / 2)\<^sup>2" using ya by (intro power_mono) simp_all
  finally have y2: "y\<^sup>2 \<le> 1 / 4" by (simp add: power2_eq_square)
  have c0: "0 \<le> cos (arcsin y)" using arcsin_bounded [OF r] by (intro cos_ge_zero) simp_all
  have "(cos (arcsin y))\<^sup>2 = 1 - (sin (arcsin y))\<^sup>2" by (rule cos_squared_eq)
  also have "\<dots> = 1 - y\<^sup>2" using r by simp
  finally have "(1 / 2)\<^sup>2 \<le> (cos (arcsin y))\<^sup>2" using y2 by (simp add: power2_eq_square)
  then have "1 / 2 \<le> cos (arcsin y)" using c0 by (rule power2_le_imp_le)
  then show ?thesis by (simp add: y_def)
qed

lemma equator_hour_angle:
  assumes "\<bar>h\<bar> \<le> 18 * rad"
  shows "getHourAngle h 0 (arcsin (sin l * sin e_obl))
    = Some (arccos (sin h / cos (arcsin (sin l * sin e_obl))))"
proof -
  have "\<bar>sin h\<bar> \<le> \<bar>h\<bar>" by (rule abs_sin_x_le_abs_x)
  moreover have "18 * rad < 18 * (4 / 180)" using rad_less by simp
  ultimately have "\<bar>sin h\<bar> < 1 / 2" using assms by simp
  then have "\<bar>sin h\<bar> < cos (arcsin (sin l * sin e_obl))"
    using cos_declination_ge_half [of l] by linarith
  then have "acosDiv (sin h) (cos (arcsin (sin l * sin e_obl)))
      = Some (arccos (sin h / cos (arcsin (sin l * sin e_obl))))"
    by (rule acosDiv_some)
  then show ?thesis by (simp add: getHourAngle_def)
qed

lemma equator_crossings_defined:
  "w0 (sunTimesLocals date 0 lon) \<noteq> None"
  "w1 (sunTimesLocals date 0 lon) \<noteq> None"
  "w2 (sunTimesLocals date 0 lon) \<noteq> None"
  "w3 (sunTimesLocals date 0 lon) \<noteq> None"
  "w4 (sunTimesLocals date 0 lon) \<noteq> None"
proof -
  have a: "\<bar>sunsetAngle\<bar> \<le> 18 * rad" "\<bar>sunsetAngle + sunDiameter\<bar> \<le> 18 * rad"
    "\<bar>nauticalTwilightAngle\<bar> \<le> 18 * rad" "\<bar>astronomicalTwilightAngle\<bar> \<le> 18 * rad"
    "\<bar>darknessAngle\<bar> \<le> 18 * rad"
    using rad_pos
    by (simp_all add: sunsetAngle_def sunDiameter_def nauticalTwilightAngle_def
        astronomicalTwilightAngle_def darknessAngle_def abs_mult abs_le_iff)
  show "w0 (sunTimesLocals date 0 lon) \<noteq> None"
    "w1 (sunTimesLocals date 0 lon) \<noteq> None"
    "w2 (sunTimesLocals date 0 lon) \<noteq> None"
    "w3 (sunTimesLocals date 0 lon) \<noteq> None"
    "w4 (sunTimesLocals date 0 lon) \<noteq> None"
    unfolding sunTimesLocals_def Let_def
    by (simp_all add: equator_hour_angle [OF a(1)] equator_hour_angle [OF a(2)]
        equator_hour_angle [OF a(3)] equator_hour_angle [OF a(4)] equator_hour_angle [OF a(5)])
qed

subsection \<open>Moon times\<close>

lemma sqrt_625: "sqrt (1 / 625 :: real) = 1 / 25"
  by (rule real_sqrt_unique) (simp_all add: power2_eq_square)

lemma setHours0_utc_example: "setHours0 utc 1549735200000 = 1549670400000"
  by code_simp

lemma moonrise_none_iff: "(moonrise (moonResult date st) = None) = (\<not> truthy (rise st))"
  by (cases "rise st") (simp_all add: moonResult_def truthy_def)

lemma moonset_none_iff: "(moonset (moonResult date st) = None) = (\<not> truthy (setv st))"
  by (cases "setv st") (simp_all add: moonResult_def truthy_def)

lemma flags_none_iff:
  "(alwaysUp (moonResult date st) = None \<and> alwaysDown (moonResult date st) = None)
   = (truthy (rise st) \<or> truthy (setv st))"
  by (auto simp add: moonResult_def)

subsection \<open>The zodiac lookup\<close>

lemma civilFromDays_examples:
  "civilFromDays 0 = (1970, 1, 1)"
  "civilFromDays (- 1) = (1969, 12, 31)"
  "civilFromDays 11016 = (2000, 2, 29)"
  "civilFromDays 17936 = (2019, 2, 9)"
  by code_simp+

lemma lookupZodiac_negative: "l < 0 \<Longrightarrow> lookupZodiac l = Inl TypeError"
  by (simp add: lookupZodiac_def zodiacs_def)

text \<open>The civil date 2026-05-12 on a host in UTC, and its day number \<^verbatim>\<open>jd\<close>.\<close>

lemma calendar_2026_05_12:
  "getFullYear utc 1778544000000 = 2026"
  "getMonth utc 1778544000000 + 1 = 5"
  "getDate utc 1778544000000 = 12"
  by code_simp+

lemma civilJulianDay_2026_05_12: "civilJulianDay 2026 5 12 = 2461173"
  by code_simp

lemma normalize_rp: "normalize_v ((2461173 - 2451555.8) / 27.321582241) = 3051168 / 27321582241"
  by code_simp

lemma normalize_dp: "normalize_v ((2461173 - 2451562.2) / 27.55454988) = 181805348 / 229621249"
  by code_simp

lemma normalize_ip: "normalize_v ((2461173 - 2451550.1) / 29.530588853) = 25458622775 / 29530588853"
  by code_simp

lemma zodiacLongitude_expand:
  "zodiacLongitude 2461173 =
     360 * (3051168 / 27321582241) + 6.3 * sin (2 * pi * (181805348 / 229621249))
     + 1.3 * sin (2 * (25458622775 / 29530588853 * 2 * pi) - 2 * pi * (181805348 / 229621249))
     + 0.7 * sin (2 * (25458622775 / 29530588853 * 2 * pi))"
  by (simp only: zodiacLongitude_def Let_def normalize_rp normalize_dp normalize_ip)

lemma zodiacLongitude_negative: "zodiacLongitude 2461173 < 0"
proof -
  have p: "0 < pi" by simp
  have "7 * pi / 6 \<le> 2 * pi * (181805348 / 229621249)" using p by simp
  moreover have "2 * pi * (181805348 / 229621249) \<le> 11 * pi / 6" using p by simp
  ultimately have s1: "sin (2 * pi * (181805348 / 229621249)) \<le> - (1 / 2)"
    by (rule sin_le_neg_half)
  have s2: "sin (2 * (25458622775 / 29530588853 * 2 * pi) - 2 * pi * (181805348 / 229621249)) \<le> 1"
    by (rule sin_le_one)
  have s3: "sin (2 * (25458622775 / 29530588853 * 2 * pi)) \<le> 1"
    by (rule sin_le_one)
  have r: "360 * (3051168 / 27321582241) < (1::real)" by simp
  show ?thesis unfolding zodiacLongitude_expand using s1 s2 s3 r by linarith
qed

lemma getMoonCoordsZ_2026_05_12: "getMoonCoordsZ utc 1778544000000 days = Inl TypeError"
  using zodiacLongitude_negative
  by (simp add: getMoonCoordsZ_def Let_def calendar_2026_05_12 civilJulianDay_2026_05_12
      lookupZodiac_negative)

text \<open>The civil date 2019-02-09 on a host in UTC: the lookup finds Aries.\<close>

lemma lookupZodiac_aries: "0 \<le> l \<Longrightarrow> l < 30 \<Longrightarrow> lookupZodiac l = Inr ''Aries''"
  by (simp add: lookupZodiac_def zodiacs_def)

lemma calendar_2019_02_09:
  "getFullYear utc 1549735200000 = 2019"
  "getMonth utc 1549735200000 + 1 = 2"
  "getDate utc 1549735200000 = 9"
  by code_simp+

lemma civilJulianDay_2019_02_09: "civilJulianDay 2019 2 9 = 2458524"
  by code_simp

lemma normalize_rp_2019: "normalize_v ((2458524 - 2451555.8) / 27.321582241) = 1196528545 / 27321582241"
  by code_simp

lemma zodiacLongitude_2019_02_09: "0 \<le> zodiacLongitude 2458524 \<and> zodiacLongitude 2458524 < 30"
proof -
  have b: "\<And>x::real. - 1 \<le> sin x" "\<And>x::real. sin x \<le> 1" by simp_all
  let ?dp = "2 * pi * normalize_v ((2458524 - 2451562.2) / 27.55454988)"
  let ?ip = "normalize_v ((2458524 - 2451550.1) / 29.530588853) * 2 * pi"
  have e: "zodiacLongitude 2458524 =
      360 * (1196528545 / 27321582241) + 6.3 * sin ?dp + 1.3 * sin (2 * ?ip - ?dp) + 0.7 * sin (2 * ?ip)"
    by (simp only: zodiacLongitude_def Let_def normalize_rp_2019)
  have r: "15 < 360 * (1196528545 / 27321582241 :: real)" "360 * (1196528545 / 27321582241 :: real) < 16"
    by simp_all
  have "0 \<le> zodiacLongitude 2458524"
    unfolding e using r b [of ?dp] b [of "2 * ?ip - ?dp"] b [of "2 * ?ip"] by linarith
  moreover have "zodiacLongitude 2458524 < 30"
    unfolding e using r b [of ?dp] b [of "2 * ?ip - ?dp"] b [of "2 * ?ip"] by linarith
  ultimately show ?thesis by simp
qed

lemma getMoonCoordsZ_2019_02_09:
  "getMoonCoordsZ utc 1549735200000 days =
     Inr \<lparr> declination = declination (getMoonCoords days),
           rightAscension = rightAscension (getMoonCoords days),
           distance = distance (getMoonCoords days),
           latitude = zodiacLatitude 2458524,
           longitude = zodiacLongitude 2458524,
           zodiacSign = ''Aries'' \<rparr>"
  using zodiacLongitude_2019_02_09
  by (simp add: getMoonCoordsZ_def Let_def calendar_2019_02_09 civilJulianDay_2019_02_09
      lookupZodiac_aries)

subsection \<open>The second implementation\<close>

lemma getMoonCoordsZ_fields:
  assumes "getMoonCoordsZ tz date days = Inr c"
  shows "distance c = distance (getMoonCoords days)"
    and "declination c = declination (getMoonCoords days)"
    and "rightAscension c = rightAscension (getMoonCoords days)"
proof -
  let ?l = "lookupZodiac (zodiacLongitude (civilJulianDay (getFullYear tz date) (getMonth tz date + 1) (getDate tz date)))"
  obtain z where z: "?l = Inr z"
  proof (cases ?l)
    case (Inl err)
    then have "getMoonCoordsZ tz date days = Inl err" by (simp add: getMoonCoordsZ_def Let_def)
    with assms show ?thesis by simp
  next
    case (Inr z)
    then show ?thesis by (rule that)
  qed
  have c: "c = \<lparr> declination = declination (getMoonCoords days),
           rightAscension = rightAscension (getMoonCoords days),
           distance = distance (getMoonCoords days),
           latitude = zodiacLatitude (civilJulianDay (getFullYear tz date) (getMonth tz date + 1) (getDate tz date)),
           longitude = zodiacLongitude (civilJulianDay (getFullYear tz date) (getMonth tz date + 1) (getDate tz date)),
           zodiacSign = z \<rparr>"
    using assms unfolding getMoonCoordsZ_def Let_def z sum.case by simp
  show "distance c = distance (getMoonCoords days)"
    and "declination c = declination (getMoonCoords days)"
    and "rightAscension c = rightAscension (getMoonCoords days)"
    unfolding c by simp_all
qed

lemma getMoonPositionZ_distance:
  assumes "getMoonPositionZ tz date lat lon = Inr p"
  shows "distance_km p = distance (getMoonCoords (getDays date))"
proof (cases "getMoonCoordsZ tz date (getDays date)")
  case (Inl err)
  then have "getMoonPositionZ tz date lat lon = Inl err" by (simp add: getMoonPositionZ_def Let_def)
  with assms show ?thesis by simp
next
  case (Inr mc)
  have "distance_km p = distance mc"
    using assms unfolding getMoonPositionZ_def Let_def Inr sum.case by auto
  then show ?thesis using getMoonCoordsZ_fields(1) [OF Inr] by simp
qed

lemma distance_formula_bounds:
  "364096 \<le> 385001 - 20905 * cos (x::real) \<and> 385001 - 20905 * cos x \<le> 405906"
proof -
  have "- 1 \<le> cos x" "cos x \<le> 1" by (rule cos_ge_minus_one, rule cos_le_one)
  then have "364096 \<le> 385001 - 20905 * cos x" "385001 - 20905 * cos x \<le> 405906" by linarith+
  then show ?thesis by simp
qed

lemma getMoonCoords_distance: "distance (getMoonCoords days) = 385001 - 20905 * cos (rad * (134.963 + 13.064993 * days))"
  by (simp add: getMoonCoords_def Let_def)

lemma moonResult_exclusive:
  "(alwaysUp (moonResult date st) = None \<and> alwaysDown (moonResult date st) = None)
   = (\<not> (moonrise (moonResult date st) = None \<and> moonset (moonResult date st) = None))"
  by (simp add: flags_none_iff moonrise_none_iff moonset_none_iff)

lemma getMoonTimesZ_cases:
  "snd (getMoonTimesZ tz date lat lon) = Inr r \<Longrightarrow> \<exists>st. r = moonResult (setHours0 tz date) st"
proof -
  assume a: "snd (getMoonTimesZ tz date lat lon) = Inr r"
  show ?thesis
  proof (cases "getMoonPositionZ tz (setHours0 tz date) lat lon")
    case (Inl err)
    then have "snd (getMoonTimesZ tz date lat lon) = Inl err"
      by (simp add: getMoonTimesZ_def Let_def)
    with a show ?thesis by simp
  next
    case (Inr p)
    let ?st0 = "\<lparr> h0 = altitude p - hc, rise = None, setv = None, ye = Some 0, x1 = Some 0, x2 = Some 0 \<rparr>"
    show ?thesis
    proof (cases "moonLoopZ tz (setHours0 tz date) lat lon 1 ?st0")
      case (Inl err)
      then have "snd (getMoonTimesZ tz date lat lon) = Inl err"
        unfolding getMoonTimesZ_def Let_def Inr sum.case snd_conv by simp
      with a show ?thesis by simp
    next
      case st: (Inr st)
      have "snd (getMoonTimesZ tz date lat lon) = Inr (moonResult (setHours0 tz date) st)"
        unfolding getMoonTimesZ_def Let_def Inr sum.case snd_conv st by simp
      with a show ?thesis by auto
    qed
  qed
qed

text \<open>On the date of the repository's tests the second implementation returns, with Aries.\<close>

lemma getMoonPositionZ_2019_02_09:
  "\<exists>p. getMoonPositionZ utc 1549735200000 lat lon = Inr p \<and> moonZodiacSign p = ''Aries''"
  by (simp add: getMoonPositionZ_def Let_def getMoonCoordsZ_2019_02_09)

subsection \<open>Moon phase\<close>

lemma half_one_plus_cos: "0 \<le> (1 + cos (x::real)) / 2 \<and> (1 + cos x) / 2 \<le> 1"
proof -
  have "0 \<le> 1 + cos x" "1 + cos x \<le> 2"
    using cos_ge_minus_one [of x] cos_le_one [of x] by linarith+
  then show ?thesis by simp
qed

lemma phase_formula_bounds:
  assumes "- pi < inc" "inc \<le> pi"
  shows "0 \<le> 0.5 + 0.5 * inc * (if c then - 1 else 1) / pi
    \<and> 0.5 + 0.5 * inc * (if c then - 1 else 1) / pi \<le> (1::real)"
proof -
  have p: "0 < pi" by simp
  have q: "- 1 \<le> inc / pi" "inc / pi \<le> 1"
    using assms p by (simp_all add: pos_le_divide_eq pos_divide_le_eq)
  have e1: "0.5 + 0.5 * inc * 1 / pi = (1 + inc / pi) / 2"
    "0.5 + 0.5 * inc * (- 1) / pi = (1 - inc / pi) / 2"
    by (simp_all add: field_simps)
  have "0 \<le> 1 + inc / pi" "1 + inc / pi \<le> 2" using q by linarith+
  then have r1: "0 \<le> (1 + inc / pi) / 2" "(1 + inc / pi) / 2 \<le> 1" by simp_all
  have "0 \<le> 1 - inc / pi" "1 - inc / pi \<le> 2" using q by linarith+
  then have r2: "0 \<le> (1 - inc / pi) / 2" "(1 - inc / pi) / 2 \<le> 1" by simp_all
  show ?thesis
  proof (cases c)
    case True
    show ?thesis unfolding if_P [OF True] e1 using r2 by simp
  next
    case False
    show ?thesis unfolding if_not_P [OF False] e1 using r1 by simp
  qed
qed

lemma getMoonPhase_fraction:
  "0 \<le> fraction (getMoonPhase date) \<and> fraction (getMoonPhase date) \<le> 1"
  by (simp add: getMoonPhase_def Let_def half_one_plus_cos
      del: divide_le_eq_numeral1 le_divide_eq_numeral1)

lemma getMoonPhase_phase:
  "0 \<le> phase (getMoonPhase date) \<and> phase (getMoonPhase date) \<le> 1"
  unfolding getMoonPhase_def Let_def
  using phase_formula_bounds [OF conjunct1 [OF atan2_bounds] conjunct2 [OF atan2_bounds]]
  by simp

subsection \<open>Double precision\<close>

lemma toDouble_eval_up:
  fixes k :: nat
  assumes "2 ^ k \<le> \<bar>x\<bar>" "\<bar>x\<bar> < 2 * 2 ^ k"
  shows "toDouble x = real_of_int (roundEven (x * 2 ^ 52 / 2 ^ k)) * 2 ^ k / 2 ^ 52"
proof -
  have pos: "0 < \<bar>x\<bar>" using assms(1) by (smt (verit) zero_less_power)
  have "2 powr (real_of_int (int k)) \<le> \<bar>x\<bar> \<and> \<bar>x\<bar> < 2 powr (real_of_int (int k + 1))"
    using assms by (simp add: powr_realpow powr_add)
  then have fl: "\<lfloor>log 2 \<bar>x\<bar>\<rfloor> = int k"
    using floor_log_eq_powr_iff [of "\<bar>x\<bar>" 2 "int k"] pos by simp
  have u: "2 powr (real_of_int (int k) - 52) = 2 ^ k / 2 ^ 52"
    by (simp add: powr_diff powr_realpow)
  have nz: "x \<noteq> 0" using pos by auto
  show ?thesis unfolding toDouble_def Let_def fl u using nz by simp
qed

lemma toDouble_eval_down:
  fixes k :: nat
  assumes "1 / 2 ^ k \<le> \<bar>x\<bar>" "\<bar>x\<bar> < 2 / 2 ^ k"
  shows "toDouble x = real_of_int (roundEven (x * (2 ^ k * 2 ^ 52))) / (2 ^ k * 2 ^ 52)"
proof -
  have pos: "0 < \<bar>x\<bar>" using assms(1) by (smt (verit) zero_less_power divide_pos_pos zero_less_one)
  have p1: "2 powr (real_of_int (- int k)) = 1 / 2 ^ k"
    by (simp add: powr_minus powr_realpow divide_inverse)
  have p2: "2 powr (real_of_int (- int k + 1)) = 2 / 2 ^ k"
  proof -
    have "2 powr (real_of_int (- int k + 1)) = 2 powr (1 - real k)" by simp
    also have "\<dots> = 2 powr 1 / 2 powr (real k)" by (rule powr_diff)
    also have "\<dots> = 2 / 2 ^ k" by (simp add: powr_realpow)
    finally show ?thesis .
  qed
  have "2 powr (real_of_int (- int k)) \<le> \<bar>x\<bar> \<and> \<bar>x\<bar> < 2 powr (real_of_int (- int k + 1))"
    unfolding p1 p2 using assms by simp
  then have fl: "\<lfloor>log 2 \<bar>x\<bar>\<rfloor> = - int k"
    using floor_log_eq_powr_iff [of "\<bar>x\<bar>" 2 "- int k"] pos by simp
  have u: "2 powr (real_of_int (- int k) - 52) = 1 / (2 ^ k * 2 ^ 52)"
  proof -
    have "2 powr (real_of_int (- int k) - 52) = 2 powr (real_of_int (- int k)) / 2 powr 52"
      by (rule powr_diff)
    also have "\<dots> = (1 / 2 ^ k) / 2 ^ 52" unfolding p1 by simp
    finally show ?thesis by simp
  qed
  have nz: "x \<noteq> 0" using pos by auto
  show ?thesis unfolding toDouble_def Let_def fl u using nz by simp
qed

lemma roundtrip4_q1: "toDouble (real_of_int 4 / dayMills) = 6996098493140215 / 2 ^ 77"
proof -
  have r: "roundEven (real_of_int 4 / dayMills * (2 ^ 25 * 2 ^ 52)) = 6996098493140215"
    unfolding dayMills_def by code_simp
  have "toDouble (real_of_int 4 / dayMills)
      = real_of_int (roundEven (real_of_int 4 / dayMills * (2 ^ 25 * 2 ^ 52))) / (2 ^ 25 * 2 ^ 52)"
    by (rule toDouble_eval_down) (simp_all add: dayMills_def)
  then show ?thesis unfolding r by simp
qed

lemma roundtrip4_q2: "toDouble (6996098493140215 / 2 ^ 77 - 0.5) = - 9007198420741061 / 2 ^ 54"
proof -
  have r: "roundEven ((6996098493140215 / 2 ^ 77 - 0.5) * (2 ^ 2 * 2 ^ 52)) = - 9007198420741061"
    by code_simp
  have "toDouble (6996098493140215 / 2 ^ 77 - 0.5)
      = real_of_int (roundEven ((6996098493140215 / 2 ^ 77 - 0.5) * (2 ^ 2 * 2 ^ 52))) / (2 ^ 2 * 2 ^ 52)"
    by (rule toDouble_eval_down) simp_all
  then show ?thesis unfolding r by simp
qed

lemma roundtrip4_q3: "toDouble (- 9007198420741061 / 2 ^ 54 + julian1970) = 5241121747763299 / 2 ^ 31"
proof -
  have r: "roundEven ((- 9007198420741061 / 2 ^ 54 + julian1970) * 2 ^ 52 / 2 ^ 21) = 5241121747763299"
    unfolding julian1970_def by code_simp
  have "toDouble (- 9007198420741061 / 2 ^ 54 + julian1970)
      = real_of_int (roundEven ((- 9007198420741061 / 2 ^ 54 + julian1970) * 2 ^ 52 / 2 ^ 21)) * 2 ^ 21 / 2 ^ 52"
    by (rule toDouble_eval_up) (simp_all add: julian1970_def)
  then show ?thesis unfolding r by simp
qed

lemma toJulianD_4: "toJulianD 4 = 5241121747763299 / 2 ^ 31"
  unfolding toJulianD_def roundtrip4_q1 roundtrip4_q2 roundtrip4_q3 by (rule refl)

lemma roundtrip4_b1: "toDouble (5241121747763299 / 2 ^ 31 + 0.5) = 5241122821505123 / 2 ^ 31"
proof -
  have r: "roundEven ((5241121747763299 / 2 ^ 31 + 0.5) * 2 ^ 52 / 2 ^ 21) = 5241122821505123"
    by code_simp
  have "toDouble (5241121747763299 / 2 ^ 31 + 0.5)
      = real_of_int (roundEven ((5241121747763299 / 2 ^ 31 + 0.5) * 2 ^ 52 / 2 ^ 21)) * 2 ^ 21 / 2 ^ 52"
    by (rule toDouble_eval_up) simp_all
  then show ?thesis unfolding r by simp
qed

lemma roundtrip4_b2: "toDouble (5241122821505123 / 2 ^ 31 - julian1970) = 99 / 2 ^ 31"
proof -
  have r: "roundEven ((5241122821505123 / 2 ^ 31 - julian1970) * (2 ^ 25 * 2 ^ 52)) = 6966505673588736"
    unfolding julian1970_def by code_simp
  have "toDouble (5241122821505123 / 2 ^ 31 - julian1970)
      = real_of_int (roundEven ((5241122821505123 / 2 ^ 31 - julian1970) * (2 ^ 25 * 2 ^ 52))) / (2 ^ 25 * 2 ^ 52)"
    by (rule toDouble_eval_down) (simp_all add: julian1970_def)
  then show ?thesis unfolding r by simp
qed

lemma roundtrip4_b3: "toDouble (99 / 2 ^ 31 * dayMills) = 8353125 / 2097152"
proof -
  have r: "roundEven (99 / 2 ^ 31 * dayMills * 2 ^ 52 / 2 ^ 1) = 8969099673600000"
    unfolding dayMills_def by code_simp
  have "toDouble (99 / 2 ^ 31 * dayMills)
      = real_of_int (roundEven (99 / 2 ^ 31 * dayMills * 2 ^ 52 / 2 ^ 1)) * 2 ^ 1 / 2 ^ 52"
    by (rule toDouble_eval_up) (simp_all add: dayMills_def)
  then show ?thesis unfolding r by simp
qed

lemma roundEven_error: "\<bar>real_of_int (roundEven y) - y\<bar> \<le> 1 / 2"
proof -
  have f: "real_of_int \<lfloor>y\<rfloor> \<le> y" "y < real_of_int \<lfloor>y\<rfloor> + 1" by linarith+
  consider (lo) "y - real_of_int \<lfloor>y\<rfloor> < 1 / 2" | (hi) "1 / 2 < y - real_of_int \<lfloor>y\<rfloor>"
    | (tie) "y - real_of_int \<lfloor>y\<rfloor> = 1 / 2" by linarith
  then show ?thesis
  proof cases
    case lo
    then have "roundEven y = \<lfloor>y\<rfloor>" by (simp add: roundEven_def Let_def)
    then show ?thesis using lo f by simp
  next
    case hi
    then have "roundEven y = \<lfloor>y\<rfloor> + 1" by (simp add: roundEven_def Let_def)
    then show ?thesis using hi f by simp
  next
    case tie
    then have "roundEven y = \<lfloor>y\<rfloor> \<or> roundEven y = \<lfloor>y\<rfloor> + 1" by (simp add: roundEven_def Let_def)
    then show ?thesis using tie f by auto
  qed
qed

lemma toDouble_error:
  fixes k :: nat
  assumes "\<bar>x\<bar> < 2 ^ k"
  shows "\<bar>toDouble x - x\<bar> \<le> 2 ^ k / 2 ^ 54"
proof (cases "x = 0")
  case True
  then show ?thesis by (simp add: toDouble_def)
next
  case False
  define j where "j = \<lfloor>log 2 \<bar>x\<bar>\<rfloor>"
  define u :: real where "u = 2 powr (real_of_int j - 52)"
  have upos: "0 < u" by (simp add: u_def)
  have pos: "0 < \<bar>x\<bar>" using False by simp
  have "\<bar>x\<bar> < 2 powr (real k)" using assms by (simp add: powr_realpow)
  then have "log 2 \<bar>x\<bar> < real k" using pos by (simp add: log_less_iff)
  then have "j < int k" unfolding j_def by (simp add: floor_less_iff)
  then have "real_of_int j - 52 \<le> real k - 53" by linarith
  then have "u \<le> 2 powr (real k - 53)" unfolding u_def by (simp add: powr_mono)
  also have "2 powr (real k - 53) = 2 powr (real k) / 2 powr 53" by (rule powr_diff)
  also have "\<dots> = 2 ^ k / 2 ^ 53" by (simp add: powr_realpow)
  finally have ule: "u \<le> 2 ^ k / 2 ^ 53" .
  have td: "toDouble x = real_of_int (roundEven (x / u)) * u"
    using False by (simp add: toDouble_def Let_def u_def j_def)
  have "toDouble x - x = (real_of_int (roundEven (x / u)) - x / u) * u"
    unfolding td using upos by (simp add: field_simps)
  then have "\<bar>toDouble x - x\<bar> = \<bar>real_of_int (roundEven (x / u)) - x / u\<bar> * u"
    using upos by (simp add: abs_mult)
  also have "\<dots> \<le> (1 / 2) * u"
    using roundEven_error [of "x / u"] upos by (simp add: mult_right_mono)
  also have "\<dots> \<le> (1 / 2) * (2 ^ k / 2 ^ 53)" using ule by simp
  finally show ?thesis by simp
qed

lemma toInteger_near:
  assumes "\<bar>v - real_of_int t\<bar> < 1"
  shows "\<bar>toInteger v - t\<bar> \<le> 1"
proof -
  have lo: "real_of_int (t - 1) < v" and hi: "v < real_of_int (t + 1)" using assms by auto
  have "t - 1 \<le> \<lfloor>v\<rfloor>" using lo le_floor_iff [of "t - 1" v] by linarith
  moreover have "\<lfloor>v\<rfloor> < t + 1" using hi floor_less_iff [of v "t + 1"] by blast
  moreover have "\<lceil>v\<rceil> \<le> t + 1" using hi ceiling_le_iff [of v "t + 1"] by linarith
  moreover have "t - 1 < \<lceil>v\<rceil>" using lo less_ceiling_iff [of "t - 1" v] by blast
  ultimately show ?thesis unfolding toInteger_def by auto
qed

text \<open>
  The error of the round trip over the whole range of time values. A double of magnitude
  below \<open>2\<^sup>5\<^sup>3 / 2\<^sup>n\<close> that is a multiple of \<open>1 / 2\<^sup>n\<close> is exact; a double of magnitude
  at least \<open>2\<^sup>5\<^sup>2 / 2\<^sup>n\<close> is a multiple of \<open>1 / 2\<^sup>n\<close>. So the additions of \<open>0.5\<close> and
  of \<open>2440588\<close> to a Julian date round at most once, when the sum enters the next binade.
\<close>

lemma roundEven_of_int: "roundEven (real_of_int k) = k"
  by (simp add: roundEven_def Let_def)

lemma pow2_quot: "2 ^ a / 2 ^ n = 2 powr (real_of_int (int a - int n))"
proof -
  have "2 powr (real_of_int (int a - int n)) = 2 powr (real a - real n)" by simp
  also have "\<dots> = 2 powr (real a) / 2 powr (real n)" by (rule powr_diff)
  also have "\<dots> = 2 ^ a / 2 ^ n" by (simp add: powr_realpow)
  finally show ?thesis by simp
qed

lemma toDouble_exact:
  fixes n :: nat
  assumes g: "x = real_of_int m / 2 ^ n" and b: "\<bar>x\<bar> < 2 ^ 53 / 2 ^ n"
  shows "toDouble x = x"
proof (cases "x = 0")
  case True
  then show ?thesis by (simp add: toDouble_def)
next
  case False
  define j where "j = \<lfloor>log 2 \<bar>x\<bar>\<rfloor>"
  define u :: real where "u = 2 powr (real_of_int j - 52)"
  have upos: "0 < u" by (simp add: u_def)
  have pos: "0 < \<bar>x\<bar>" using False by simp
  have "\<bar>x\<bar> < 2 powr (real_of_int (int 53 - int n))" using b unfolding pow2_quot .
  then have "log 2 \<bar>x\<bar> < real_of_int (int 53 - int n)" using pos by (simp add: log_less_iff)
  then have "j < int 53 - int n" unfolding j_def by (simp only: floor_less_iff)
  then have jn: "0 \<le> 52 - int n - j" by simp
  define p where "p = nat (52 - int n - j)"
  have p: "int p = 52 - int n - j" unfolding p_def using jn by simp
  have "u * 2 ^ p = 2 powr (real_of_int j - 52) * 2 powr (real p)"
    unfolding u_def by (simp add: powr_realpow)
  also have "\<dots> = 2 powr (real_of_int j - 52 + real p)" by (simp add: powr_add)
  also have "real_of_int j - 52 + real p = real_of_int (int 0 - int n)"
  proof -
    have "real p = real_of_int (int p)" by simp
    also have "\<dots> = real_of_int (52 - int n - j)" unfolding p ..
    finally show ?thesis by simp
  qed
  also have "2 powr (real_of_int (int 0 - int n)) = 2 ^ 0 / 2 ^ n" by (rule pow2_quot [symmetric])
  finally have up: "u * 2 ^ p = 1 / 2 ^ n" by simp
  have "x = real_of_int m * (u * 2 ^ p)" unfolding up g by simp
  then have xu: "x / u = real_of_int (m * 2 ^ p)" using upos by simp
  have td: "toDouble x = real_of_int (roundEven (x / u)) * u"
    using False by (simp add: toDouble_def Let_def u_def j_def)
  have "toDouble x = (x / u) * u" unfolding td unfolding xu roundEven_of_int ..
  then show ?thesis using upos by simp
qed

lemma toDouble_on_grid:
  fixes n :: nat
  assumes b: "2 ^ 52 / 2 ^ n \<le> \<bar>x\<bar>"
  shows "\<exists>m. toDouble x = real_of_int m / 2 ^ n"
proof -
  have "(0::real) < 2 ^ 52 / 2 ^ n" by simp
  then have pos: "0 < \<bar>x\<bar>" using b by linarith
  then have nz: "x \<noteq> 0" by auto
  define j where "j = \<lfloor>log 2 \<bar>x\<bar>\<rfloor>"
  define u :: real where "u = 2 powr (real_of_int j - 52)"
  have "2 powr (real_of_int (int 52 - int n)) \<le> \<bar>x\<bar>" using b unfolding pow2_quot .
  then have "real_of_int (int 52 - int n) \<le> log 2 \<bar>x\<bar>" using pos by (simp add: le_log_iff)
  then have "int 52 - int n \<le> j" unfolding j_def by (simp only: le_floor_iff)
  then have jn: "0 \<le> j - 52 + int n" by simp
  define p where "p = nat (j - 52 + int n)"
  have p: "int p = j - 52 + int n" unfolding p_def using jn by simp
  have "2 ^ p / 2 ^ n = 2 powr (real_of_int (int p - int n))" by (rule pow2_quot)
  also have "int p - int n = j - 52" unfolding p by simp
  finally have up: "u = 2 ^ p / 2 ^ n" unfolding u_def by simp
  have td: "toDouble x = real_of_int (roundEven (x / u)) * u"
    using nz by (simp add: toDouble_def Let_def u_def j_def)
  have "toDouble x = real_of_int (roundEven (x / u) * 2 ^ p) / 2 ^ n" unfolding td up by simp
  then show ?thesis by blast
qed

lemma toDouble_error_grid:
  fixes n :: nat
  assumes b: "\<bar>x\<bar> < 2 ^ 53 / 2 ^ n"
  shows "\<bar>toDouble x - x\<bar> \<le> 1 / 2 ^ Suc n"
proof (cases "x = 0")
  case True
  then show ?thesis by (simp add: toDouble_def)
next
  case False
  define j where "j = \<lfloor>log 2 \<bar>x\<bar>\<rfloor>"
  define u :: real where "u = 2 powr (real_of_int j - 52)"
  have upos: "0 < u" by (simp add: u_def)
  have pos: "0 < \<bar>x\<bar>" using False by simp
  have "\<bar>x\<bar> < 2 powr (real_of_int (int 53 - int n))" using b unfolding pow2_quot .
  then have "log 2 \<bar>x\<bar> < real_of_int (int 53 - int n)" using pos by (simp add: log_less_iff)
  then have "j < int 53 - int n" unfolding j_def by (simp only: floor_less_iff)
  then have "real_of_int j - 52 \<le> real_of_int (int 0 - int n)" by simp
  then have "u \<le> 2 powr (real_of_int (int 0 - int n))" unfolding u_def by (simp only: powr_mono)
  also have "\<dots> = 2 ^ 0 / 2 ^ n" by (rule pow2_quot [symmetric])
  finally have ule: "u \<le> 1 / 2 ^ n" by simp
  have td: "toDouble x = real_of_int (roundEven (x / u)) * u"
    using False by (simp add: toDouble_def Let_def u_def j_def)
  have "toDouble x - x = (real_of_int (roundEven (x / u)) - x / u) * u"
    unfolding td using upos by (simp add: field_simps)
  then have "\<bar>toDouble x - x\<bar> = \<bar>real_of_int (roundEven (x / u)) - x / u\<bar> * u"
    using upos by (simp add: abs_mult)
  also have "\<dots> \<le> (1 / 2) * u"
    using roundEven_error [of "x / u"] upos by (simp add: mult_right_mono)
  also have "\<dots> \<le> (1 / 2) * (1 / 2 ^ n)" using ule by simp
  finally show ?thesis by simp
qed


lemma toDouble_step:
  fixes N :: nat
  assumes inv: "(w = r \<and> (\<exists>m. w = real_of_int m / 2 ^ Suc N))
      \<or> (\<bar>w - r\<bar> \<le> 1 / 2 ^ Suc N \<and> (\<exists>m. w = real_of_int m / 2 ^ N))"
    and c: "\<exists>m. c = real_of_int m / 2 ^ N"
    and bnd: "\<bar>r + c\<bar> + 1 / 2 ^ Suc N < 2 ^ 53 / 2 ^ N"
  shows "(toDouble (w + c) = r + c \<and> (\<exists>m. toDouble (w + c) = real_of_int m / 2 ^ Suc N))
      \<or> (\<bar>toDouble (w + c) - (r + c)\<bar> \<le> 1 / 2 ^ Suc N \<and> (\<exists>m. toDouble (w + c) = real_of_int m / 2 ^ N))"
proof -
  from c obtain mc where mc: "c = real_of_int mc / 2 ^ N" by blast
  have dpos: "(0::real) < 1 / 2 ^ Suc N" by simp
  from inv show ?thesis
  proof
    assume a: "w = r \<and> (\<exists>m. w = real_of_int m / 2 ^ Suc N)"
    then obtain m where m: "w = real_of_int m / 2 ^ Suc N" by blast
    have wr: "w = r" using a by simp
    have y: "w + c = real_of_int (m + 2 * mc) / 2 ^ Suc N" unfolding m mc by (simp add: field_simps)
    show ?thesis
    proof (cases "\<bar>w + c\<bar> < 2 ^ 53 / 2 ^ Suc N")
      case True
      from toDouble_exact [OF y True] have e: "toDouble (w + c) = w + c" .
      have "toDouble (w + c) = r + c" using e wr by simp
      moreover have "\<exists>m. toDouble (w + c) = real_of_int m / 2 ^ Suc N" unfolding e using y by blast
      ultimately show ?thesis by blast
    next
      case False
      have "(2::real) ^ 53 / 2 ^ Suc N = 2 ^ 52 / 2 ^ N" by simp
      then have "2 ^ 52 / 2 ^ N \<le> \<bar>w + c\<bar>" using False by linarith
      then have gr: "\<exists>m. toDouble (w + c) = real_of_int m / 2 ^ N" by (rule toDouble_on_grid)
      have "\<bar>w + c\<bar> < 2 ^ 53 / 2 ^ N" using bnd dpos unfolding wr by linarith
      then have "\<bar>toDouble (w + c) - (w + c)\<bar> \<le> 1 / 2 ^ Suc N" by (rule toDouble_error_grid)
      then have "\<bar>toDouble (w + c) - (r + c)\<bar> \<le> 1 / 2 ^ Suc N" unfolding wr .
      then show ?thesis using gr by blast
    qed
  next
    assume a: "\<bar>w - r\<bar> \<le> 1 / 2 ^ Suc N \<and> (\<exists>m. w = real_of_int m / 2 ^ N)"
    then obtain m where m: "w = real_of_int m / 2 ^ N" by blast
    have wr: "\<bar>w - r\<bar> \<le> 1 / 2 ^ Suc N" using a by simp
    have y: "w + c = real_of_int (m + mc) / 2 ^ N" unfolding m mc by (simp add: field_simps)
    have "\<bar>w + c\<bar> \<le> \<bar>r + c\<bar> + \<bar>w - r\<bar>" by linarith
    then have "\<bar>w + c\<bar> < 2 ^ 53 / 2 ^ N" using bnd wr by linarith
    from toDouble_exact [OF y this] have e: "toDouble (w + c) = w + c" .
    have "\<bar>toDouble (w + c) - (r + c)\<bar> \<le> 1 / 2 ^ Suc N" unfolding e using wr by simp
    moreover have "\<exists>m. toDouble (w + c) = real_of_int m / 2 ^ N" unfolding e using y by blast
    ultimately show ?thesis by blast
  qed
qed

lemma toDouble_chain:
  fixes N :: nat
  assumes g: "\<exists>m. q1 = real_of_int m / 2 ^ Suc N"
    and h: "\<exists>m. (1 / 2 :: real) = real_of_int m / 2 ^ N"
    and bnd: "\<bar>q1\<bar> + 2440589 < 2 ^ 53 / 2 ^ N"
  shows "\<bar>toDouble (toDouble (toDouble (toDouble (q1 - 0.5) + julian1970) + 0.5) - julian1970) - q1\<bar>
      \<le> 1 / 2 ^ Suc N"
proof -
  from h obtain mh where mh: "(1 / 2 :: real) = real_of_int mh / 2 ^ N" by blast
  have ch: "\<exists>m. (1 / 2 :: real) = real_of_int m / 2 ^ N" using mh by blast
  have "- (1 / 2 :: real) = - (real_of_int mh / 2 ^ N)" using mh by (rule arg_cong)
  also have "- (real_of_int mh / 2 ^ N) = real_of_int (- mh) / 2 ^ N" by simp
  finally have cmh: "\<exists>m. - (1 / 2 :: real) = real_of_int m / 2 ^ N" by blast
  have "(2440588 :: real) = real_of_int (2440588 * 2 ^ N) / 2 ^ N" by simp
  then have cj: "\<exists>m. (2440588 :: real) = real_of_int m / 2 ^ N" by blast
  have "- (2440588 :: real) = real_of_int (- (2440588 * 2 ^ N)) / 2 ^ N" by simp
  then have cmj: "\<exists>m. - (2440588 :: real) = real_of_int m / 2 ^ N" by blast
  have "(1::real) / 2 ^ Suc N \<le> 1 / 2 ^ Suc 0" by (intro divide_left_mono power_increasing) simp_all
  then have dle: "(1::real) / 2 ^ Suc N \<le> 1 / 2" by simp
  define q2 where "q2 = toDouble (q1 + - (1 / 2))"
  define q3 where "q3 = toDouble (q2 + 2440588)"
  define b1 where "b1 = toDouble (q3 + 1 / 2)"
  define b2 where "b2 = toDouble (b1 + - 2440588)"
  have i0: "(q1 = q1 \<and> (\<exists>m. q1 = real_of_int m / 2 ^ Suc N))
      \<or> (\<bar>q1 - q1\<bar> \<le> 1 / 2 ^ Suc N \<and> (\<exists>m. q1 = real_of_int m / 2 ^ N))" using g by simp
  have k1: "\<bar>q1 + - (1 / 2)\<bar> + 1 / 2 ^ Suc N < 2 ^ 53 / 2 ^ N" using bnd dle by linarith
  note i1 = toDouble_step [OF i0 cmh k1, folded q2_def]
  have k2: "\<bar>q1 + - (1 / 2) + 2440588\<bar> + 1 / 2 ^ Suc N < 2 ^ 53 / 2 ^ N" using bnd dle by linarith
  note i2 = toDouble_step [OF i1 cj k2, folded q3_def]
  have k3: "\<bar>q1 + - (1 / 2) + 2440588 + 1 / 2\<bar> + 1 / 2 ^ Suc N < 2 ^ 53 / 2 ^ N" using bnd dle by linarith
  note i3 = toDouble_step [OF i2 ch k3, folded b1_def]
  have k4: "\<bar>q1 + - (1 / 2) + 2440588 + 1 / 2 + - 2440588\<bar> + 1 / 2 ^ Suc N < 2 ^ 53 / 2 ^ N"
    using bnd dle by linarith
  note i4 = toDouble_step [OF i3 cmj k4, folded b2_def]
  have z: "q1 + - (1 / 2) + 2440588 + 1 / 2 + - 2440588 = q1" by simp
  have "\<bar>b2 - q1\<bar> \<le> 1 / 2 ^ Suc N" using i4 unfolding z by auto
  moreover have "b2 = toDouble (toDouble (toDouble (toDouble (q1 - 0.5) + julian1970) + 0.5) - julian1970)"
    unfolding b2_def b1_def q3_def q2_def julian1970_def by simp
  ultimately show ?thesis by simp
qed


lemma half_grid_near:
  assumes g: "v = real_of_int m / 2" and n: "\<bar>v - real_of_int t\<bar> < 3 / 2"
  shows "\<bar>v - real_of_int t\<bar> \<le> 1 \<and> \<bar>toInteger v - t\<bar> \<le> 1"
proof -
  have mv: "real_of_int m = 2 * v" unfolding g by simp
  have eq: "real_of_int (m - 2 * t) = real_of_int m - 2 * real_of_int t" by simp
  have "\<bar>real_of_int m - 2 * real_of_int t\<bar> < 3" using n mv by linarith
  then have "\<bar>real_of_int (m - 2 * t)\<bar> < 3" unfolding eq .
  then have "real_of_int \<bar>m - 2 * t\<bar> < real_of_int 3" by simp
  then have "\<bar>m - 2 * t\<bar> < 3" by (simp only: of_int_less_iff)
  then have "\<bar>m - 2 * t\<bar> \<le> 2" by simp
  then have "real_of_int \<bar>m - 2 * t\<bar> \<le> real_of_int 2" by (simp only: of_int_le_iff)
  then have "\<bar>real_of_int (m - 2 * t)\<bar> \<le> 2" by simp
  then have "\<bar>real_of_int m - 2 * real_of_int t\<bar> \<le> 2" unfolding eq .
  then have near: "\<bar>v - real_of_int t\<bar> \<le> 1" using mv by linarith
  have lo: "real_of_int (t - 1) \<le> v" and hi: "v \<le> real_of_int (t + 1)" using near by auto
  have "t - 1 \<le> \<lfloor>v\<rfloor>" using lo le_floor_iff [of "t - 1" v] by blast
  moreover have "\<lfloor>v\<rfloor> \<le> t + 1"
  proof -
    have "real_of_int \<lfloor>v\<rfloor> \<le> real_of_int (t + 1)" using hi of_int_floor_le [of v] by linarith
    then show ?thesis by (simp only: of_int_le_iff)
  qed
  moreover have "\<lceil>v\<rceil> \<le> t + 1" using hi ceiling_le_iff [of v "t + 1"] by blast
  moreover have "t - 1 \<le> \<lceil>v\<rceil>"
  proof -
    have "real_of_int (t - 1) \<le> real_of_int \<lceil>v\<rceil>" using lo le_of_int_ceiling [of v] by linarith
    then show ?thesis by (simp only: of_int_le_iff)
  qed
  ultimately have "\<bar>toInteger v - t\<bar> \<le> 1" unfolding toInteger_def by auto
  then show ?thesis using near by simp
qed

lemma toDouble_error_25: "\<bar>x\<bar> < 33554432 \<Longrightarrow> \<bar>toDouble x - x\<bar> \<le> 1 / 536870912"
  using toDouble_error [of x 25] by simp

lemma toDouble_error_26: "\<bar>x\<bar> < 67108864 \<Longrightarrow> \<bar>toDouble x - x\<bar> \<le> 1 / 268435456"
  using toDouble_error [of x 26] by simp

lemma toDouble_error_27: "\<bar>x\<bar> < 134217728 \<Longrightarrow> \<bar>toDouble x - x\<bar> \<le> 1 / 134217728"
  using toDouble_error [of x 27] by simp

lemma toDouble_error_51: "\<bar>x\<bar> < 2251799813685248 \<Longrightarrow> \<bar>toDouble x - x\<bar> \<le> 1 / 8"
  using toDouble_error [of x 51] by simp

lemma toDouble_error_52: "\<bar>x\<bar> < 4503599627370496 \<Longrightarrow> \<bar>toDouble x - x\<bar> \<le> 1 / 4"
  using toDouble_error [of x 52] by simp

lemma toDouble_error_53: "\<bar>x\<bar> < 9007199254740992 \<Longrightarrow> \<bar>toDouble x - x\<bar> \<le> 1 / 2"
  using toDouble_error [of x 53] by simp

lemma toDouble_grid_28: "16777216 \<le> \<bar>x\<bar> \<Longrightarrow> \<exists>m. toDouble x = real_of_int m / 2 ^ Suc 27"
  using toDouble_on_grid [of 28 x] by simp

lemma toDouble_grid_27: "33554432 \<le> \<bar>x\<bar> \<Longrightarrow> \<exists>m. toDouble x = real_of_int m / 2 ^ Suc 26"
  using toDouble_on_grid [of 27 x] by simp

lemma toDouble_grid_26: "67108864 \<le> \<bar>x\<bar> \<Longrightarrow> \<exists>m. toDouble x = real_of_int m / 2 ^ 26"
  using toDouble_on_grid [of 26 x] by simp

lemma toDouble_grid_half: "2251799813685248 \<le> \<bar>x\<bar> \<Longrightarrow> \<exists>m. toDouble x = real_of_int m / 2"
  using toDouble_on_grid [of 1 x] by simp

lemma toDouble_chain_27:
  assumes g: "\<exists>m. q1 = real_of_int m / 2 ^ Suc 27" and b: "\<bar>q1\<bar> < 64000000"
  shows "\<bar>toDouble (toDouble (toDouble (toDouble (q1 - 0.5) + julian1970) + 0.5) - julian1970) - q1\<bar>
      \<le> 1 / 268435456"
proof -
  have "(1 / 2 :: real) = real_of_int (2 ^ 26) / 2 ^ 27" by simp
  then have h: "\<exists>m. (1 / 2 :: real) = real_of_int m / 2 ^ 27" by (rule exI)
  have k: "\<bar>q1\<bar> + 2440589 < 2 ^ 53 / 2 ^ 27" using b by simp
  from toDouble_chain [OF g h k] show ?thesis by simp
qed

lemma toDouble_chain_26:
  assumes g: "\<exists>m. q1 = real_of_int m / 2 ^ Suc 26" and b: "\<bar>q1\<bar> < 130000000"
  shows "\<bar>toDouble (toDouble (toDouble (toDouble (q1 - 0.5) + julian1970) + 0.5) - julian1970) - q1\<bar>
      \<le> 1 / 134217728"
proof -
  have "(1 / 2 :: real) = real_of_int (2 ^ 25) / 2 ^ 26" by simp
  then have h: "\<exists>m. (1 / 2 :: real) = real_of_int m / 2 ^ 26" by (rule exI)
  have k: "\<bar>q1\<bar> + 2440589 < 2 ^ 53 / 2 ^ 26" using b by simp
  from toDouble_chain [OF g h k] show ?thesis by simp
qed

lemma toDouble_exact_26:
  assumes g: "\<exists>m. x = real_of_int m / 2 ^ 26" and b: "\<bar>x\<bar> < 134217728"
  shows "toDouble x = x"
proof -
  from g obtain m where m: "x = real_of_int m / 2 ^ 26" by blast
  have k: "\<bar>x\<bar> < 2 ^ 53 / 2 ^ 26" using b by simp
  from m k show ?thesis by (rule toDouble_exact)
qed

lemma toDouble_chain_exact:
  assumes g: "\<exists>m. q1 = real_of_int m / 2 ^ 26" and b: "\<bar>q1\<bar> < 130000000"
  shows "toDouble (toDouble (toDouble (toDouble (q1 - 0.5) + julian1970) + 0.5) - julian1970) = q1"
proof -
  from g obtain m where m: "q1 = real_of_int m / 2 ^ 26" by blast
  have "q1 - 0.5 = real_of_int (m - 2 ^ 25) / 2 ^ 26" unfolding m by simp
  then have "\<exists>k. q1 - 0.5 = real_of_int k / 2 ^ 26" by (rule exI)
  moreover have "\<bar>q1 - 0.5\<bar> < 134217728" using b by linarith
  ultimately have s1: "toDouble (q1 - 0.5) = q1 - 0.5" by (rule toDouble_exact_26)
  have "q1 - 0.5 + julian1970 = real_of_int (m - 2 ^ 25 + 2440588 * 2 ^ 26) / 2 ^ 26"
    unfolding m julian1970_def by simp
  then have "\<exists>k. q1 - 0.5 + julian1970 = real_of_int k / 2 ^ 26" by (rule exI)
  moreover have "\<bar>q1 - 0.5 + julian1970\<bar> < 134217728" using b unfolding julian1970_def by linarith
  ultimately have s2: "toDouble (q1 - 0.5 + julian1970) = q1 - 0.5 + julian1970"
    by (rule toDouble_exact_26)
  have e3: "q1 - 0.5 + julian1970 + 0.5 = q1 + julian1970" by simp
  have "q1 + julian1970 = real_of_int (m + 2440588 * 2 ^ 26) / 2 ^ 26"
    unfolding m julian1970_def by simp
  then have "\<exists>k. q1 + julian1970 = real_of_int k / 2 ^ 26" by (rule exI)
  moreover have "\<bar>q1 + julian1970\<bar> < 134217728" using b unfolding julian1970_def by linarith
  ultimately have s3: "toDouble (q1 + julian1970) = q1 + julian1970" by (rule toDouble_exact_26)
  have e4: "q1 + julian1970 - julian1970 = q1" by simp
  have "\<bar>q1\<bar> < 134217728" using b by linarith
  with g have s4: "toDouble q1 = q1" by (rule toDouble_exact_26)
  show ?thesis unfolding s1 s2 e3 s3 e4 s4 ..
qed

lemma toDouble_of_int:
  assumes "\<bar>real_of_int k\<bar> < 9007199254740992"
  shows "toDouble (real_of_int k) = real_of_int k"
proof -
  have g: "real_of_int k = real_of_int k / 2 ^ 0" by simp
  have b: "\<bar>real_of_int k\<bar> < 2 ^ 53 / 2 ^ 0" using assms by simp
  from g b show ?thesis by (rule toDouble_exact)
qed


lemma newDate_valid: "\<bar>x\<bar> \<le> 8640000000000000 \<Longrightarrow> newDate (Some x) = Date (toInteger x)"
  by (simp add: newDate_def)

lemma roundtrip_scale:
  "\<bar>b * 86400000 - x * 86400000\<bar> = \<bar>b - x\<bar> * (86400000 :: real)"
proof -
  have "b * 86400000 - x * 86400000 = (b - x) * 86400000" by (simp add: algebra_simps)
  then have "\<bar>b * 86400000 - x * 86400000\<bar> = \<bar>(b - x) * 86400000\<bar>" by (rule arg_cong)
  also have "\<dots> = \<bar>b - x\<bar> * 86400000" by (simp only: abs_mult abs_numeral)
  finally show ?thesis .
qed

section \<open>The claims\<close>

text \<open>
  C1. Every public operation is a pure function of its inputs; in particular
  \<^verbatim>\<open>getMoonTimes\<close> leaves the \<^verbatim>\<open>Date\<close> passed by the caller unchanged.

  The code does not: \<^verbatim>\<open>getMoonTimes\<close> starts with \<^verbatim>\<open>date.setHours(0, 0, 0, 0)\<close> on its
  argument, in both implementations. For the date 2019-02-09T18:00:00Z (time value 1549735200000) on a host in UTC,
  the caller's \<^verbatim>\<open>Date\<close> holds 2019-02-09T00:00:00Z (1549670400000) after the call, whatever
  the coordinates.
\<close>

theorem getMoonTimes_overwrites_date:
  "fst (getMoonTimes utc 1549735200000 lat lon) = 1549670400000
   \<and> fst (getMoonTimesZ utc 1549735200000 lat lon) = 1549670400000"
  by (simp add: getMoonTimes_def getMoonTimesZ_def Let_def setHours0_utc_example)

text \<open>
  C2. The longitude computed for the zodiac lookup lies in \<open>[0, 360)\<close>, so that the lookup
  always finds a sign and \<^verbatim>\<open>getMoonPosition\<close> always returns one.

  The code adds the three periodic terms, up to 8.3 degrees together, to \<open>360 * rp\<close>
  and does not normalise the sum. For the civil date 2026-05-12 the longitude is
  negative, no entry of the table matches, and \<^verbatim>\<open>getMoonPosition\<close> throws.
\<close>

theorem getMoonPosition_zodiac_throws:
  "zodiacLongitude (civilJulianDay (getFullYear utc 1778544000000)
      (getMonth utc 1778544000000 + 1) (getDate utc 1778544000000)) < 0
   \<and> getMoonPositionZ utc 1778544000000 lat lon = Inl TypeError
   \<and> getMoonPhaseZ utc 1778544000000 = Inl TypeError"
  using zodiacLongitude_negative
  by (simp add: getMoonPositionZ_def getMoonPhaseZ_def Let_def getMoonCoordsZ_2026_05_12
      calendar_2026_05_12 civilJulianDay_2026_05_12)

text \<open>
  C3. Where a threshold crossing has no real solution, \<^verbatim>\<open>getSunTimes\<close> represents the
  crossing as absent rather than returning a date derived from NaN.

  As stated this fails: every field of the result is a \<^verbatim>\<open>Date\<close>. On 1999-01-01T12:00Z
  (time value 915192000000) at latitude 89 and longitude 0 the quotient of the sunset
  threshold exceeds 1, the hour angle is NaN, and \<^verbatim>\<open>sunrise.start\<close> and \<^verbatim>\<open>sunset.end\<close>
  are the invalid date.
\<close>

theorem getSunTimes_polar_night_invalid_date:
  "w0 (sunTimesLocals 915192000000 89 0) = None
   \<and> start (sunrise (getSunTimes 915192000000 89 0)) = InvalidDate
   \<and> end' (sunset (getSunTimes 915192000000 89 0)) = InvalidDate"
proof -
  have "julianSet (sunTimesLocals 915192000000 89 0) = None"
    and "julianRise (sunTimesLocals 915192000000 89 0) = None"
    using w0_1999 by (simp_all only: locals_none)
  then show ?thesis unfolding sunTimes_fields using w0_1999 by (simp add: julianDateToDate_None)
qed

text \<open>
  C3, as amended. For every date, latitude and longitude at which the crossing of a
  threshold has no real solution (the hour angle of \<^verbatim>\<open>getHourAngle\<close> at that threshold is
  NaN), each field of the result of \<^verbatim>\<open>getSunTimes\<close> that is derived from that threshold
  is the invalid date (time value NaN), not an absent value.
\<close>

theorem getSunTimes_no_crossing_invalid_date:
  "(getHourAngle sunsetAngle (lat * rad) (sunDeclination (sunTimesLocals date lat lon)) = None
      \<longrightarrow> start (sunrise (getSunTimes date lat lon)) = InvalidDate
         \<and> end' (civilDawn (getSunTimes date lat lon)) = InvalidDate
         \<and> end' (sunset (getSunTimes date lat lon)) = InvalidDate
         \<and> start (civilDusk (getSunTimes date lat lon)) = InvalidDate)
   \<and> (getHourAngle (sunsetAngle + sunDiameter) (lat * rad) (sunDeclination (sunTimesLocals date lat lon)) = None
      \<longrightarrow> end' (sunrise (getSunTimes date lat lon)) = InvalidDate
         \<and> start (sunset (getSunTimes date lat lon)) = InvalidDate)
   \<and> (getHourAngle nauticalTwilightAngle (lat * rad) (sunDeclination (sunTimesLocals date lat lon)) = None
      \<longrightarrow> start (civilDawn (getSunTimes date lat lon)) = InvalidDate
         \<and> end' (nauticalDawn (getSunTimes date lat lon)) = InvalidDate
         \<and> dawn (getSunTimes date lat lon) = InvalidDate
         \<and> end' (civilDusk (getSunTimes date lat lon)) = InvalidDate
         \<and> start (nauticalDusk (getSunTimes date lat lon)) = InvalidDate
         \<and> dusk (getSunTimes date lat lon) = InvalidDate)
   \<and> (getHourAngle astronomicalTwilightAngle (lat * rad) (sunDeclination (sunTimesLocals date lat lon)) = None
      \<longrightarrow> start (nauticalDawn (getSunTimes date lat lon)) = InvalidDate
         \<and> end' (astronomicalDawn (getSunTimes date lat lon)) = InvalidDate
         \<and> end' (nauticalDusk (getSunTimes date lat lon)) = InvalidDate
         \<and> start (astronomicalDusk (getSunTimes date lat lon)) = InvalidDate)
   \<and> (getHourAngle darknessAngle (lat * rad) (sunDeclination (sunTimesLocals date lat lon)) = None
      \<longrightarrow> start (astronomicalDawn (getSunTimes date lat lon)) = InvalidDate
         \<and> end' (astronomicalDusk (getSunTimes date lat lon)) = InvalidDate)"
proof -
  let ?L = "sunTimesLocals date lat lon"
  note h = locals_hour_angles [of date lat lon, symmetric]
  have n: "w0 ?L = None \<longrightarrow> julianSet ?L = None \<and> julianRise ?L = None"
    "w1 ?L = None \<longrightarrow> julianSetStart ?L = None \<and> julianRiseEnd ?L = None"
    "w2 ?L = None \<longrightarrow> julianNautical ?L = None \<and> julianCivil ?L = None"
    "w3 ?L = None \<longrightarrow> julianAstro ?L = None \<and> julianNautical2 ?L = None"
    "w4 ?L = None \<longrightarrow> julianDark ?L = None \<and> julianAsto2 ?L = None"
    by (simp_all only: locals_none simp_thms)
  then show ?thesis unfolding sunTimes_fields h by (auto simp: julianDateToDate_None)
qed

theorem getSunTimes_no_crossing_invalid_date_witness:
  "getHourAngle sunsetAngle (90 * rad) (sunDeclination (sunTimesLocals 0 90 0)) = None
   \<and> getHourAngle (sunsetAngle + sunDiameter) (90 * rad) (sunDeclination (sunTimesLocals 0 90 0)) = None
   \<and> getHourAngle nauticalTwilightAngle (90 * rad) (sunDeclination (sunTimesLocals 0 90 0)) = None
   \<and> getHourAngle astronomicalTwilightAngle (90 * rad) (sunDeclination (sunTimesLocals 0 90 0)) = None
   \<and> getHourAngle darknessAngle (90 * rad) (sunDeclination (sunTimesLocals 0 90 0)) = None
   \<and> start (sunrise (getSunTimes 0 90 0)) = InvalidDate
   \<and> end' (civilDawn (getSunTimes 0 90 0)) = InvalidDate
   \<and> end' (sunset (getSunTimes 0 90 0)) = InvalidDate
   \<and> start (civilDusk (getSunTimes 0 90 0)) = InvalidDate
   \<and> end' (sunrise (getSunTimes 0 90 0)) = InvalidDate
   \<and> start (sunset (getSunTimes 0 90 0)) = InvalidDate
   \<and> start (civilDawn (getSunTimes 0 90 0)) = InvalidDate
   \<and> end' (nauticalDawn (getSunTimes 0 90 0)) = InvalidDate
   \<and> dawn (getSunTimes 0 90 0) = InvalidDate
   \<and> end' (civilDusk (getSunTimes 0 90 0)) = InvalidDate
   \<and> start (nauticalDusk (getSunTimes 0 90 0)) = InvalidDate
   \<and> dusk (getSunTimes 0 90 0) = InvalidDate
   \<and> start (nauticalDawn (getSunTimes 0 90 0)) = InvalidDate
   \<and> end' (astronomicalDawn (getSunTimes 0 90 0)) = InvalidDate
   \<and> end' (nauticalDusk (getSunTimes 0 90 0)) = InvalidDate
   \<and> start (astronomicalDusk (getSunTimes 0 90 0)) = InvalidDate
   \<and> start (astronomicalDawn (getSunTimes 0 90 0)) = InvalidDate
   \<and> end' (astronomicalDusk (getSunTimes 0 90 0)) = InvalidDate
   \<and> getHourAngle sunsetAngle (89 * rad) (sunDeclination (sunTimesLocals 915192000000 89 0)) = None
   \<and> start (sunrise (getSunTimes 915192000000 89 0)) = InvalidDate
   \<and> end' (civilDawn (getSunTimes 915192000000 89 0)) = InvalidDate
   \<and> end' (sunset (getSunTimes 915192000000 89 0)) = InvalidDate
   \<and> start (civilDusk (getSunTimes 915192000000 89 0)) = InvalidDate"
proof -
  have p: "getHourAngle sunsetAngle (90 * rad) (sunDeclination (sunTimesLocals 0 90 0)) = None"
    "getHourAngle (sunsetAngle + sunDiameter) (90 * rad) (sunDeclination (sunTimesLocals 0 90 0)) = None"
    "getHourAngle nauticalTwilightAngle (90 * rad) (sunDeclination (sunTimesLocals 0 90 0)) = None"
    "getHourAngle astronomicalTwilightAngle (90 * rad) (sunDeclination (sunTimesLocals 0 90 0)) = None"
    "getHourAngle darknessAngle (90 * rad) (sunDeclination (sunTimesLocals 0 90 0)) = None"
    by (rule pole_hour_angle)+
  have q: "getHourAngle sunsetAngle (89 * rad) (sunDeclination (sunTimesLocals 915192000000 89 0)) = None"
    using w0_1999 unfolding locals_hour_angles .
  from getSunTimes_no_crossing_invalid_date [of 90 0 0] getSunTimes_no_crossing_invalid_date [of 89 915192000000 0] p q
  show ?thesis by blast
qed

text \<open>
  C4. When the parabola of a window has two valid roots, the earlier root is the rise
  when the vertex value \<^verbatim>\<open>ye\<close> is negative, and the later root is the rise otherwise.

  As stated this fails: the code assigns the roots the other way round. For the window
  with samples 0.03, -0.01, 0.03 (radians) the roots are -1/2 and 1/2, the vertex value
  is -0.01, and the rise is \<open>i + 1/2\<close>, the later root, not the earlier one \<open>i - 1/2\<close>.
\<close>

theorem moonWindow_rise_is_later_root:
  "ye (moonWindow 1 (- (1/100)) (3/100)
         \<lparr> h0 = 3/100, rise = None, setv = None, ye = Some 0, x1 = Some 0, x2 = Some 0 \<rparr>) = Some (- (1/100))
   \<and> x1 (moonWindow 1 (- (1/100)) (3/100)
         \<lparr> h0 = 3/100, rise = None, setv = None, ye = Some 0, x1 = Some 0, x2 = Some 0 \<rparr>) = Some (- (1/2))
   \<and> x2 (moonWindow 1 (- (1/100)) (3/100)
         \<lparr> h0 = 3/100, rise = None, setv = None, ye = Some 0, x1 = Some 0, x2 = Some 0 \<rparr>) = Some (1/2)
   \<and> rise (moonWindow 1 (- (1/100)) (3/100)
         \<lparr> h0 = 3/100, rise = None, setv = None, ye = Some 0, x1 = Some 0, x2 = Some 0 \<rparr>) \<noteq> Some (1 + - (1/2))
   \<and> rise (moonWindow 1 (- (1/100)) (3/100)
         \<lparr> h0 = 3/100, rise = None, setv = None, ye = Some 0, x1 = Some 0, x2 = Some 0 \<rparr>) = Some (1 + 1/2)
   \<and> setv (moonWindow 1 (- (1/100)) (3/100)
         \<lparr> h0 = 3/100, rise = None, setv = None, ye = Some 0, x1 = Some 0, x2 = Some 0 \<rparr>) = Some (1 + - (1/2))"
  by (simp add: moonWindow_def Let_def sqrt_625)

text \<open>
  C4, as amended. When the parabola of a window has two valid roots \<open>r1 \<le> r2\<close> in
  \<open>[-1, 1]\<close>, the later root \<open>r2\<close> is assigned as the rise and the earlier root \<open>r1\<close>
  as the set when the vertex value \<^verbatim>\<open>ye\<close> is negative; otherwise the earlier root is the
  rise and the later root is the set.
\<close>

theorem moonWindow_two_roots:
  assumes a: "a = (h0 st + h2) / 2 - h1"
    and b: "b = (h2 - h0 st) / 2"
    and xe: "xe = - b / (2 * a)"
    and ye: "ye0 = (a * xe + b) * xe + h1"
    and d: "d = b * b - 4 * a * h1"
    and r1: "r1 = xe - sqrt d / (\<bar>a\<bar> * 2)"
    and r2: "r2 = xe + sqrt d / (\<bar>a\<bar> * 2)"
    and nz: "a \<noteq> 0"
    and dpos: "0 \<le> d"
    and v1: "\<bar>r1\<bar> \<le> 1"
    and v2: "\<bar>r2\<bar> \<le> 1"
  shows "r1 \<le> r2
    \<and> rise (moonWindow i h1 h2 st) = Some (i + (if ye0 < 0 then r2 else r1))
    \<and> setv (moonWindow i h1 h2 st) = Some (i + (if ye0 < 0 then r1 else r2))"
proof -
  have "0 \<le> sqrt d / (\<bar>a\<bar> * 2)" using dpos by simp
  then have le: "r1 \<le> r2" unfolding r1 r2 by linarith
  have n1: "\<not> r1 < - 1" using v1 by linarith
  have w: "rise (moonWindow i h1 h2 st) = Some (i + (if ye0 < 0 then r2 else r1))
      \<and> setv (moonWindow i h1 h2 st) = Some (i + (if ye0 < 0 then r1 else r2))"
    using nz dpos v1 v2 n1
    unfolding moonWindow_def Let_def a [symmetric] b [symmetric] xe [symmetric] d [symmetric]
      ye [symmetric] r1 [symmetric] r2 [symmetric]
    by simp
  show ?thesis using le w by simp
qed

theorem moonWindow_two_roots_witness:
  "\<bar>- (1/2) :: real\<bar> \<le> 1 \<and> \<bar>1/2 :: real\<bar> \<le> 1 \<and> (- (1/100) :: real) < 0
   \<and> rise (moonWindow 5 (- (1/100)) (3/100)
         \<lparr> h0 = 3/100, rise = None, setv = None, ye = Some 0, x1 = Some 0, x2 = Some 0 \<rparr>) = Some (5 + 1/2)
   \<and> setv (moonWindow 5 (- (1/100)) (3/100)
         \<lparr> h0 = 3/100, rise = None, setv = None, ye = Some 0, x1 = Some 0, x2 = Some 0 \<rparr>) = Some (5 + - (1/2))"
proof -
  let ?st = "\<lparr> h0 = 3/100, rise = None, setv = None, ye = Some 0, x1 = Some 0, x2 = Some 0 \<rparr>"
  have a: "(1/25 :: real) = (h0 ?st + 3/100) / 2 - (- (1/100))" by simp
  have b: "(0::real) = (3/100 - h0 ?st) / 2" by simp
  have xe: "(0::real) = - 0 / (2 * (1/25))" by simp
  have ye: "(- (1/100) :: real) = (1/25 * 0 + 0) * 0 + (- (1/100))" by simp
  have d: "(1/625 :: real) = 0 * 0 - 4 * (1/25) * (- (1/100))" by simp
  have r1: "(- (1/2) :: real) = 0 - sqrt (1/625) / (\<bar>1/25\<bar> * 2)" by (simp add: sqrt_625)
  have r2: "(1/2 :: real) = 0 + sqrt (1/625) / (\<bar>1/25\<bar> * 2)" by (simp add: sqrt_625)
  have nz: "(1/25 :: real) \<noteq> 0" by simp
  have dpos: "(0::real) \<le> 1/625" by simp
  have v1: "\<bar>- (1/2) :: real\<bar> \<le> 1" by simp
  have v2: "\<bar>1/2 :: real\<bar> \<le> 1" by simp
  have neg: "(- (1/100) :: real) < 0" by simp
  from moonWindow_two_roots [OF a b xe ye d r1 r2 nz dpos v1 v2, of 5]
  have "rise (moonWindow 5 (- (1/100)) (3/100) ?st) = Some (5 + (if (- (1/100) :: real) < 0 then 1/2 else - (1/2)))"
    and "setv (moonWindow 5 (- (1/100)) (3/100) ?st) = Some (5 + (if (- (1/100) :: real) < 0 then - (1/2) else 1/2))"
    by blast+
  then show ?thesis using v1 v2 neg by (simp only: if_True simp_thms)
qed

text \<open>
  C5. The value returned by \<^verbatim>\<open>getMoonTimes\<close> never carries both a crossing instant and an
  always-flag: neither flag is present exactly when \<^verbatim>\<open>moonrise\<close> or \<^verbatim>\<open>moonset\<close> is present,
  so a result with a flag has neither instant.
\<close>

theorem getMoonTimes_flags_exclude_instants:
  "(alwaysUp (snd (getMoonTimes tz date lat lon)) = None
      \<and> alwaysDown (snd (getMoonTimes tz date lat lon)) = None)
   = (\<not> (moonrise (snd (getMoonTimes tz date lat lon)) = None
          \<and> moonset (snd (getMoonTimes tz date lat lon)) = None))
   \<and> (case snd (getMoonTimesZ tz date lat lon) of
         Inl err \<Rightarrow> True
       | Inr r \<Rightarrow>
           (alwaysUp r = None \<and> alwaysDown r = None) = (\<not> (moonrise r = None \<and> moonset r = None)))"
proof -
  have first: "(alwaysUp (snd (getMoonTimes tz date lat lon)) = None
      \<and> alwaysDown (snd (getMoonTimes tz date lat lon)) = None)
   = (\<not> (moonrise (snd (getMoonTimes tz date lat lon)) = None
          \<and> moonset (snd (getMoonTimes tz date lat lon)) = None))"
    by (simp add: getMoonTimes_def Let_def flags_none_iff moonrise_none_iff moonset_none_iff)
  have second: "(case snd (getMoonTimesZ tz date lat lon) of
         Inl err \<Rightarrow> True
       | Inr r \<Rightarrow>
           (alwaysUp r = None \<and> alwaysDown r = None) = (\<not> (moonrise r = None \<and> moonset r = None)))"
  proof (cases "snd (getMoonTimesZ tz date lat lon)")
    case (Inl err)
    then show ?thesis by simp
  next
    case (Inr r)
    from getMoonTimesZ_cases [OF Inr] obtain st where r: "r = moonResult (setHours0 tz date) st"
      by blast
    show ?thesis unfolding Inr sum.case r by (rule moonResult_exclusive)
  qed
  from first second show ?thesis by (rule conjI)
qed

text \<open>
  C6. For every instant, \<^verbatim>\<open>julianDateToDate\<close> of \<^verbatim>\<open>toJulian\<close> reproduces the instant to
  millisecond precision.

  As stated this fails in the arithmetic of the source: the Julian date of an instant
  near the present has a resolution of \<open>2\<^sup>-\<^sup>3\<^sup>1\<close> days, about 0.04 ms, and the \<^verbatim>\<open>Date\<close>
  constructor truncates. For the instant 4 ms the product is 3.98... and the date
  reproduced is 3 ms.
\<close>

theorem julian_roundtrip_double_counterexample:
  "julianDateToDateD (toJulianD 4) = Date 3 \<and> julianDateToDateD (toJulianD 4) \<noteq> Date 4"
proof -
  have "toInteger (8353125 / 2097152) = 3" unfolding toInteger_def by simp
  then show ?thesis
    unfolding toJulianD_4 julianDateToDateD_def roundtrip4_b1 roundtrip4_b2 roundtrip4_b3 newDate_def
    by simp
qed

text \<open>
  C6, as amended. For every instant (a valid date: a time value of at most 8.64e15 ms in
  absolute value), \<^verbatim>\<open>julianDateToDate\<close> of \<^verbatim>\<open>toJulian\<close> in the arithmetic of the source is
  a valid date at most one millisecond from the instant.
\<close>

theorem julian_roundtrip_double:
  assumes t: "\<bar>t\<bar> \<le> 8640000000000000"
  shows "\<exists>u. julianDateToDateD (toJulianD t) = Date u \<and> \<bar>u - t\<bar> \<le> 1"
proof -
  define x0 where "x0 = real_of_int t / dayMills"
  define q1 where "q1 = toDouble x0"
  define b2 where "b2 = toDouble (toDouble (toDouble (toDouble (q1 - 0.5) + julian1970) + 0.5) - julian1970)"
  define b3 where "b3 = toDouble (b2 * 86400000)"
  have dm: "dayMills = 86400000" by (simp add: dayMills_def)
  have tx: "real_of_int t = x0 * 86400000" by (simp add: x0_def dm)
  have tr: "\<bar>real_of_int t\<bar> \<le> 8640000000000000"
  proof -
    have "real_of_int \<bar>t\<bar> \<le> real_of_int 8640000000000000" using t by (rule of_int_le_iff [THEN iffD2])
    then show ?thesis by simp
  qed
  have ax: "\<bar>x0\<bar> * 86400000 = \<bar>real_of_int t\<bar>" unfolding tx by (simp add: abs_mult)
  have x0b: "\<bar>x0\<bar> \<le> 100000000" using ax tr by linarith
  have res: "julianDateToDateD (toJulianD t) = newDate (Some b3)"
    by (simp add: julianDateToDateD_def toJulianD_def b3_def b2_def q1_def x0_def dm)
  have sc: "\<bar>b2 * 86400000 - real_of_int t\<bar> = \<bar>b2 - x0\<bar> * 86400000"
    unfolding tx by (rule roundtrip_scale)
  have fin: "\<bar>b3\<bar> \<le> 8640000000000000 \<and> \<bar>toInteger b3 - t\<bar> \<le> 1"
  proof -
    consider (A) "\<bar>x0\<bar> < 16777216"
      | (B1) "16777216 \<le> \<bar>x0\<bar>" "\<bar>x0\<bar> < 33554432"
      | (B2) "33554432 \<le> \<bar>x0\<bar>" "\<bar>x0\<bar> < 67108864"
      | (B3) "67108864 \<le> \<bar>x0\<bar>"
      by linarith
    then show ?thesis
    proof cases
      case A
      define q2 where "q2 = toDouble (q1 - 0.5)"
      define q3 where "q3 = toDouble (q2 + 2440588)"
      define b1 where "b1 = toDouble (q3 + 0.5)"
      have b2': "b2 = toDouble (b1 - 2440588)"
        unfolding b2_def b1_def q3_def q2_def julian1970_def ..
      have "\<bar>x0\<bar> < 33554432" using A by linarith
      then have e1: "\<bar>q1 - x0\<bar> \<le> 1 / 536870912" unfolding q1_def by (rule toDouble_error_25)
      have "\<bar>q1 - 0.5\<bar> < 33554432" using A e1 by linarith
      then have e2: "\<bar>q2 - (q1 - 0.5)\<bar> \<le> 1 / 536870912" unfolding q2_def by (rule toDouble_error_25)
      have "\<bar>q2 + 2440588\<bar> < 33554432" using A e1 e2 by linarith
      then have e3: "\<bar>q3 - (q2 + 2440588)\<bar> \<le> 1 / 536870912" unfolding q3_def by (rule toDouble_error_25)
      have "\<bar>q3 + 0.5\<bar> < 33554432" using A e1 e2 e3 by linarith
      then have e4: "\<bar>b1 - (q3 + 0.5)\<bar> \<le> 1 / 536870912" unfolding b1_def by (rule toDouble_error_25)
      have "\<bar>b1 - 2440588\<bar> < 33554432" using A e1 e2 e3 e4 by linarith
      then have e5: "\<bar>b2 - (b1 - 2440588)\<bar> \<le> 1 / 536870912" unfolding b2' by (rule toDouble_error_25)
      have d: "\<bar>b2 - x0\<bar> \<le> 5 / 536870912" using e1 e2 e3 e4 e5 by linarith
      have "\<bar>b2 - x0\<bar> * 86400000 \<le> (5 / 536870912) * 86400000"
        using d by (rule mult_right_mono) simp
      also have "(5 / 536870912) * 86400000 \<le> (81 / 100 :: real)" by simp
      finally have y6: "\<bar>b2 * 86400000 - real_of_int t\<bar> \<le> 81 / 100" unfolding sc .
      have tb: "\<bar>real_of_int t\<bar> < 1449551462400000" using ax A by linarith
      have "\<bar>b2 * 86400000\<bar> < 2251799813685248" using y6 tb by linarith
      then have e6: "\<bar>b3 - b2 * 86400000\<bar> \<le> 1 / 8" unfolding b3_def by (rule toDouble_error_51)
      have near: "\<bar>b3 - real_of_int t\<bar> < 1" using y6 e6 by linarith
      have "\<bar>b3\<bar> \<le> 8640000000000000" using near tb by linarith
      moreover have "\<bar>toInteger b3 - t\<bar> \<le> 1" using near by (rule toInteger_near)
      ultimately show ?thesis ..
    next
      case B1
      have g: "\<exists>m. q1 = real_of_int m / 2 ^ Suc 27" unfolding q1_def using B1(1) by (rule toDouble_grid_28)
      have e1: "\<bar>q1 - x0\<bar> \<le> 1 / 536870912" unfolding q1_def using B1(2) by (rule toDouble_error_25)
      have "\<bar>q1\<bar> < 64000000" using B1(2) e1 by linarith
      with g have e2: "\<bar>b2 - q1\<bar> \<le> 1 / 268435456" unfolding b2_def by (rule toDouble_chain_27)
      have d: "\<bar>b2 - x0\<bar> \<le> 3 / 536870912" using e1 e2 by linarith
      have "\<bar>b2 - x0\<bar> * 86400000 \<le> (3 / 536870912) * 86400000"
        using d by (rule mult_right_mono) simp
      also have "(3 / 536870912) * 86400000 \<le> (1 / 2 :: real)" by simp
      finally have y6: "\<bar>b2 * 86400000 - real_of_int t\<bar> \<le> 1 / 2" unfolding sc .
      have tb: "\<bar>real_of_int t\<bar> < 2899102924800000" using ax B1(2) by linarith
      have "\<bar>b2 * 86400000\<bar> < 4503599627370496" using y6 tb by linarith
      then have e6: "\<bar>b3 - b2 * 86400000\<bar> \<le> 1 / 4" unfolding b3_def by (rule toDouble_error_52)
      have near: "\<bar>b3 - real_of_int t\<bar> < 1" using y6 e6 by linarith
      have "\<bar>b3\<bar> \<le> 8640000000000000" using near tb by linarith
      moreover have "\<bar>toInteger b3 - t\<bar> \<le> 1" using near by (rule toInteger_near)
      ultimately show ?thesis ..
    next
      case B2
      have g: "\<exists>m. q1 = real_of_int m / 2 ^ Suc 26" unfolding q1_def using B2(1) by (rule toDouble_grid_27)
      have e1: "\<bar>q1 - x0\<bar> \<le> 1 / 268435456" unfolding q1_def using B2(2) by (rule toDouble_error_26)
      have "\<bar>q1\<bar> < 130000000" using B2(2) e1 by linarith
      with g have e2: "\<bar>b2 - q1\<bar> \<le> 1 / 134217728" unfolding b2_def by (rule toDouble_chain_26)
      have d: "\<bar>b2 - x0\<bar> \<le> 3 / 268435456" using e1 e2 by linarith
      have "\<bar>b2 - x0\<bar> * 86400000 \<le> (3 / 268435456) * 86400000"
        using d by (rule mult_right_mono) simp
      also have "(3 / 268435456) * 86400000 \<le> (97 / 100 :: real)" by simp
      finally have y6: "\<bar>b2 * 86400000 - real_of_int t\<bar> \<le> 97 / 100" unfolding sc .
      have tb: "\<bar>real_of_int t\<bar> < 5798205849600000" using ax B2(2) by linarith
      have tl: "2899102924800000 \<le> \<bar>real_of_int t\<bar>" using ax B2(1) by linarith
      have "\<bar>b2 * 86400000\<bar> < 9007199254740992" using y6 tb by linarith
      then have e6: "\<bar>b3 - b2 * 86400000\<bar> \<le> 1 / 2" unfolding b3_def by (rule toDouble_error_53)
      have "2251799813685248 \<le> \<bar>b2 * 86400000\<bar>" using y6 tl by linarith
      then have "\<exists>m. b3 = real_of_int m / 2" unfolding b3_def by (rule toDouble_grid_half)
      then obtain m where m: "b3 = real_of_int m / 2" ..
      have "\<bar>b3 - real_of_int t\<bar> < 3 / 2" using y6 e6 by linarith
      with m have near: "\<bar>b3 - real_of_int t\<bar> \<le> 1 \<and> \<bar>toInteger b3 - t\<bar> \<le> 1" by (rule half_grid_near)
      then have "\<bar>b3\<bar> \<le> 8640000000000000" using tb by linarith
      then show ?thesis using near by simp
    next
      case B3
      have g: "\<exists>m. q1 = real_of_int m / 2 ^ 26" unfolding q1_def using B3 by (rule toDouble_grid_26)
      have "\<bar>x0\<bar> < 134217728" using x0b by linarith
      then have e1: "\<bar>q1 - x0\<bar> \<le> 1 / 134217728" unfolding q1_def by (rule toDouble_error_27)
      have "\<bar>q1\<bar> < 130000000" using x0b e1 by linarith
      with g have e2: "b2 = q1" unfolding b2_def by (rule toDouble_chain_exact)
      have d: "\<bar>b2 - x0\<bar> \<le> 1 / 134217728" using e1 e2 by simp
      have "\<bar>b2 - x0\<bar> * 86400000 \<le> (1 / 134217728) * 86400000"
        using d by (rule mult_right_mono) simp
      also have "(1 / 134217728) * 86400000 \<le> (65 / 100 :: real)" by simp
      finally have y6: "\<bar>b2 * 86400000 - real_of_int t\<bar> \<le> 65 / 100" unfolding sc .
      have tl: "5798205849600000 \<le> \<bar>real_of_int t\<bar>" using ax B3 by linarith
      have "\<bar>b2 * 86400000\<bar> < 9007199254740992" using y6 tr by linarith
      then have e6: "\<bar>b3 - b2 * 86400000\<bar> \<le> 1 / 2" unfolding b3_def by (rule toDouble_error_53)
      have "2251799813685248 \<le> \<bar>b2 * 86400000\<bar>" using y6 tl by linarith
      then have "\<exists>m. b3 = real_of_int m / 2" unfolding b3_def by (rule toDouble_grid_half)
      then obtain m where m: "b3 = real_of_int m / 2" ..
      have "\<bar>b3 - real_of_int t\<bar> < 3 / 2" using y6 e6 by linarith
      with m have near: "\<bar>b3 - real_of_int t\<bar> \<le> 1 \<and> \<bar>toInteger b3 - t\<bar> \<le> 1" by (rule half_grid_near)
      have "\<bar>b3\<bar> \<le> 8640000000000000"
      proof (cases "\<bar>t\<bar> = 8640000000000000")
        case True
        have small: "\<bar>real_of_int t\<bar> < 9007199254740992" using tr by linarith
        have "\<bar>real_of_int t\<bar> = 8640000000000000"
        proof -
          have "real_of_int \<bar>t\<bar> = real_of_int 8640000000000000" using True by (rule arg_cong)
          then show ?thesis by simp
        qed
        then have "\<bar>x0\<bar> = 100000000" using ax by linarith
        then have "x0 = 100000000 \<or> x0 = - 100000000" by linarith
        then have "x0 = real_of_int 100000000 \<or> x0 = real_of_int (- 100000000)" by simp
        then obtain k where k: "x0 = real_of_int k" by blast
        have "\<bar>real_of_int k\<bar> < 9007199254740992" using x0b unfolding k by linarith
        then have "toDouble (real_of_int k) = real_of_int k" by (rule toDouble_of_int)
        then have "q1 = x0" unfolding q1_def k .
        then have "b2 * 86400000 = real_of_int t" unfolding e2 tx by simp
        then have "b3 = toDouble (real_of_int t)" unfolding b3_def by simp
        also have "\<dots> = real_of_int t" using small by (rule toDouble_of_int)
        finally show ?thesis using tr by simp
      next
        case False
        then have "\<bar>t\<bar> \<le> 8640000000000000 - 1" using t by linarith
        then have "real_of_int \<bar>t\<bar> \<le> real_of_int (8640000000000000 - 1)" by (rule of_int_le_iff [THEN iffD2])
        then have "\<bar>real_of_int t\<bar> \<le> 8639999999999999" by simp
        then show ?thesis using near by linarith
      qed
      then show ?thesis using near by simp
    qed
  qed
  from fin have "newDate (Some b3) = Date (toInteger b3)" by (simp add: newDate_valid)
  then have "julianDateToDateD (toJulianD t) = Date (toInteger b3)" unfolding res .
  then show ?thesis using fin by blast
qed

theorem julian_roundtrip_double_witness:
  "\<bar>4 :: int\<bar> \<le> 8640000000000000 \<and> (\<exists>u. julianDateToDateD (toJulianD 4) = Date u \<and> \<bar>u - 4\<bar> \<le> 1)"
proof -
  have h: "\<bar>4 :: int\<bar> \<le> 8640000000000000" by simp
  from julian_roundtrip_double [OF h] h show ?thesis by simp
qed

text \<open>
  C7. Each threshold yields a pair of Julian dates symmetric about the solar transit:
  the morning value is \<open>transit - (evening - transit)\<close>. The pairs are \<^verbatim>\<open>sunrise.start\<close>
  and \<^verbatim>\<open>sunset.end\<close>, \<^verbatim>\<open>sunrise.end\<close> and \<^verbatim>\<open>sunset.start\<close>, \<^verbatim>\<open>dawn\<close>
  (\<^verbatim>\<open>civilDawn.start\<close>) and \<^verbatim>\<open>dusk\<close> (\<^verbatim>\<open>civilDusk.end\<close>), \<^verbatim>\<open>nauticalDawn.start\<close> and
  \<^verbatim>\<open>nauticalDusk.end\<close>, \<^verbatim>\<open>astronomicalDawn.start\<close> and \<^verbatim>\<open>astronomicalDusk.end\<close>. Each
  field is the date of its Julian date; a pair without crossing is NaN on both sides.
\<close>

theorem getSunTimes_symmetric_about_transit:
  "transit (getSunTimes date lat lon) = julianDateToDate (Some (julianTransit (sunTimesLocals date lat lon)))
   \<and> end' (sunset (getSunTimes date lat lon)) = julianDateToDate (julianSet (sunTimesLocals date lat lon))
   \<and> start (sunrise (getSunTimes date lat lon)) =
       julianDateToDate (map_option
         (\<lambda>s. julianTransit (sunTimesLocals date lat lon) - (s - julianTransit (sunTimesLocals date lat lon)))
         (julianSet (sunTimesLocals date lat lon)))
   \<and> start (sunset (getSunTimes date lat lon)) = julianDateToDate (julianSetStart (sunTimesLocals date lat lon))
   \<and> end' (sunrise (getSunTimes date lat lon)) =
       julianDateToDate (map_option
         (\<lambda>s. julianTransit (sunTimesLocals date lat lon) - (s - julianTransit (sunTimesLocals date lat lon)))
         (julianSetStart (sunTimesLocals date lat lon)))
   \<and> dusk (getSunTimes date lat lon) = julianDateToDate (julianNautical (sunTimesLocals date lat lon))
   \<and> end' (civilDusk (getSunTimes date lat lon)) = julianDateToDate (julianNautical (sunTimesLocals date lat lon))
   \<and> dawn (getSunTimes date lat lon) =
       julianDateToDate (map_option
         (\<lambda>s. julianTransit (sunTimesLocals date lat lon) - (s - julianTransit (sunTimesLocals date lat lon)))
         (julianNautical (sunTimesLocals date lat lon)))
   \<and> start (civilDawn (getSunTimes date lat lon)) = dawn (getSunTimes date lat lon)
   \<and> end' (nauticalDusk (getSunTimes date lat lon)) = julianDateToDate (julianAstro (sunTimesLocals date lat lon))
   \<and> start (nauticalDawn (getSunTimes date lat lon)) =
       julianDateToDate (map_option
         (\<lambda>s. julianTransit (sunTimesLocals date lat lon) - (s - julianTransit (sunTimesLocals date lat lon)))
         (julianAstro (sunTimesLocals date lat lon)))
   \<and> end' (astronomicalDusk (getSunTimes date lat lon)) = julianDateToDate (julianDark (sunTimesLocals date lat lon))
   \<and> start (astronomicalDawn (getSunTimes date lat lon)) =
       julianDateToDate (map_option
         (\<lambda>s. julianTransit (sunTimesLocals date lat lon) - (s - julianTransit (sunTimesLocals date lat lon)))
         (julianDark (sunTimesLocals date lat lon)))"
  unfolding sunTimes_fields locals_symmetric getSunriseJulianDate_def by simp

text \<open>
  C8. For every instant the result of \<^verbatim>\<open>getMoonPhase\<close> has its \<^verbatim>\<open>fraction\<close> and its
  \<^verbatim>\<open>phase\<close> in \<open>[0, 1]\<close>.
\<close>

theorem getMoonPhase_in_unit_interval:
  "0 \<le> fraction (getMoonPhase date) \<and> fraction (getMoonPhase date) \<le> 1
   \<and> 0 \<le> phase (getMoonPhase date) \<and> phase (getMoonPhase date) \<le> 1
   \<and> (case getMoonPhaseZ tz date of
         Inl err \<Rightarrow> True
       | Inr p \<Rightarrow> 0 \<le> fraction p \<and> fraction p \<le> 1 \<and> 0 \<le> phase p \<and> phase p \<le> 1)"
proof -
  have second: "(case getMoonPhaseZ tz date of
         Inl err \<Rightarrow> True
       | Inr p \<Rightarrow> 0 \<le> fraction p \<and> fraction p \<le> 1 \<and> 0 \<le> phase p \<and> phase p \<le> 1)"
  proof (cases "getMoonCoordsZ tz date (getDays date)")
    case (Inl err)
    then show ?thesis by (simp add: getMoonPhaseZ_def Let_def)
  next
    case (Inr mc)
    show ?thesis
      unfolding getMoonPhaseZ_def Let_def Inr sum.case
      using phase_formula_bounds [OF conjunct1 [OF atan2_bounds] conjunct2 [OF atan2_bounds]]
      by (simp add: half_one_plus_cos del: divide_le_eq_numeral1 le_divide_eq_numeral1)
  qed
  show ?thesis
    using getMoonPhase_fraction [of date] getMoonPhase_phase [of date] second by simp
qed

text \<open>
  C9. The refraction correction is applied to the Moon only: the altitude of
  \<^verbatim>\<open>getMoonPosition\<close> is the raw altitude plus \<^verbatim>\<open>getAstroRefraction\<close> of the raw altitude,
  the altitude of \<^verbatim>\<open>getSunPosition\<close> is the raw altitude, the raw altitude being the
  \<^verbatim>\<open>asin\<close> of \<^verbatim>\<open>getAltitude\<close> and the correction the quotient with the altitude clamped at 0.
\<close>

theorem refraction_for_moon_only:
  "altitude (getMoonPosition date lat lon) =
     getAltitude (getSiderealTime (getDays date) (rad * - lon) - rightAscension (getMoonCoords (getDays date)))
       (rad * lat) (declination (getMoonCoords (getDays date)))
     + getAstroRefraction
        (getAltitude (getSiderealTime (getDays date) (rad * - lon) - rightAscension (getMoonCoords (getDays date)))
          (rad * lat) (declination (getMoonCoords (getDays date))))
   \<and> altitude (getSunPosition date lat lon) =
     getAltitude (getSiderealTime (getDays date) (rad * - lon) - rightAscension (getSunCoords (getDays date)))
       (rad * lat) (declination (getSunCoords (getDays date)))
   \<and> getAltitude h phi dec = arcsin (sin phi * sin dec + cos phi * cos dec * cos h)
   \<and> getAstroRefraction a = 0.0002967 / tan (max a 0 + 0.00312536 / (max a 0 + 0.08901179))"
  by (simp add: getMoonPosition_def getSunPosition_def Let_def getAltitude_def
      getAstroRefraction_def max_def)

text \<open>
  C10. For every instant and coordinates the distance returned by \<^verbatim>\<open>getMoonPosition\<close>
  lies in \<open>[364096, 405906]\<close> kilometres.
\<close>

theorem moon_distance_bounds:
  "364096 \<le> distance_km (getMoonPosition date lat lon)
   \<and> distance_km (getMoonPosition date lat lon) \<le> 405906
   \<and> (case getMoonPositionZ tz date lat lon of
         Inl err \<Rightarrow> True
       | Inr p \<Rightarrow> 364096 \<le> distance_km p \<and> distance_km p \<le> 405906)"
proof -
  have d: "distance_km (getMoonPosition date lat lon) = distance (getMoonCoords (getDays date))"
    by (simp add: getMoonPosition_def Let_def)
  have first: "364096 \<le> distance_km (getMoonPosition date lat lon)
      \<and> distance_km (getMoonPosition date lat lon) \<le> 405906"
    unfolding d getMoonCoords_distance by (rule distance_formula_bounds)
  have second: "(case getMoonPositionZ tz date lat lon of
         Inl err \<Rightarrow> True
       | Inr p \<Rightarrow> 364096 \<le> distance_km p \<and> distance_km p \<le> 405906)"
  proof (cases "getMoonPositionZ tz date lat lon")
    case (Inl err)
    then show ?thesis by simp
  next
    case (Inr p)
    show ?thesis
      unfolding Inr sum.case getMoonPositionZ_distance [OF Inr] getMoonCoords_distance
      by (rule distance_formula_bounds)
  qed
  from first second show ?thesis by simp
qed

end
